theory Spec2Isabelle
  imports Complex_Main "HOL-Library.AList"
begin

section \<open>JavaScript values\<close>

text \<open>
  The values that \<^verbatim>\<open>JSON.parse\<close> can return, and \<^verbatim>\<open>undefined\<close>. A number is a finite
  number (\<^verbatim>\<open>NaN\<close> and the infinities are not values of this model). An object is the list
  of its own properties in insertion order; a key that occurs twice counts once, and the
  first occurrence holds the value.
\<close>

datatype jsval =
    JUndefined
  | JNull
  | JBool bool
  | JNum real
  | JStr string
  | JArr "jsval list"
  | JObj "(string \<times> jsval) list"

text \<open>The operator \<^verbatim>\<open>typeof\<close>.\<close>

fun typeof :: "jsval \<Rightarrow> string" where
  "typeof JUndefined = ''undefined''"
| "typeof JNull = ''object''"
| "typeof (JBool b) = ''boolean''"
| "typeof (JNum n) = ''number''"
| "typeof (JStr s) = ''string''"
| "typeof (JArr xs) = ''object''"
| "typeof (JObj kvs) = ''object''"

text \<open>What \<^verbatim>\<open>if (v)\<close> and \<^verbatim>\<open>!v\<close> test.\<close>

fun truthy :: "jsval \<Rightarrow> bool" where
  "truthy JUndefined = False"
| "truthy JNull = False"
| "truthy (JBool b) = b"
| "truthy (JNum n) = (n \<noteq> 0)"
| "truthy (JStr s) = (s \<noteq> [])"
| "truthy (JArr xs) = True"
| "truthy (JObj kvs) = True"

text \<open>
  The property read \<^verbatim>\<open>v.k\<close>, for the property names this program reads (\<^verbatim>\<open>type\<close>,
  \<^verbatim>\<open>timestamp\<close>, \<^verbatim>\<open>attempt\<close>, the four \<^verbatim>\<open>_id\<close> names, \<^verbatim>\<open>result\<close>, \<^verbatim>\<open>data\<close>): none
  of them is a property of a number, a string, a boolean or a decoded array, where the
  read gives \<^verbatim>\<open>undefined\<close>. On \<^verbatim>\<open>null\<close> and \<^verbatim>\<open>undefined\<close> the read throws a
  \<^verbatim>\<open>TypeError\<close>; the functions below that can reach such a read test for it first.
\<close>

fun get_prop :: "jsval \<Rightarrow> string \<Rightarrow> jsval" where
  "get_prop (JObj kvs) k = (case map_of kvs k of Some v \<Rightarrow> v | None \<Rightarrow> JUndefined)"
| "get_prop v k = JUndefined"

text \<open>
  The assignment \<^verbatim>\<open>v.k = x\<close>: an existing property keeps its place, a new one goes
  last. On a primitive the assignment is dropped (the module is not in strict mode).
\<close>

fun set_prop :: "jsval \<Rightarrow> string \<Rightarrow> jsval \<Rightarrow> jsval" where
  "set_prop (JObj kvs) k x = JObj (AList.update k x kvs)"
| "set_prop v k x = v"

text \<open>
  \<^verbatim>\<open>Object.keys(v).length\<close>, for a value other than \<^verbatim>\<open>null\<close> and \<^verbatim>\<open>undefined\<close>: the
  keys of an array are its indices, those of a string the indices of its characters.
\<close>

fun Object_keys_length :: "jsval \<Rightarrow> nat" where
  "Object_keys_length (JObj kvs) = length (remdups (map fst kvs))"
| "Object_keys_length (JArr xs) = length xs"
| "Object_keys_length (JStr s) = length s"
| "Object_keys_length v = 0"

text \<open>
  \<^verbatim>\<open>s.split(c)\<close> for a separator of one character: the pieces of \<open>s\<close> between the
  occurrences of \<open>c\<close>, never an empty array.
\<close>

fun split :: "char \<Rightarrow> string \<Rightarrow> string list" where
  "split c [] = [[]]"
| "split c (x # xs) =
     (if x = c then [] # split c xs
      else (case split c xs of
              y # ys \<Rightarrow> (x # y) # ys
            | [] \<Rightarrow> [[x]]))"

datatype js_error = SyntaxError | TypeError

section \<open>Configuration\<close>

text \<open>
  A schema as \<^verbatim>\<open>config.msg.schema\<close> writes it: the keywords \<^verbatim>\<open>id\<close>, \<^verbatim>\<open>type\<close>,
  \<^verbatim>\<open>format\<close>, \<^verbatim>\<open>required\<close> and \<^verbatim>\<open>properties\<close>, an absent keyword being \<open>None\<close>,
  \<open>False\<close> or the empty list.
\<close>

datatype schema =
  Schema (s_id: "string option") (s_type: "string option") (s_format: "string option")
    (s_required: bool) (s_properties: "(string \<times> schema) list")

text \<open>The fields of \<^verbatim>\<open>config\<close> that the functions below read.\<close>

record config =
  server_brainspark_host :: string
  server_brainspark_port :: int
  http_timeout :: int
  msg_keycount :: nat
  msg_schema :: schema
  brainspark_method :: "(string \<times> string) list"
  elastic_type :: string
  elastic_indexprefix :: string

text \<open>The defaults that \<^verbatim>\<open>loadConfiguration\<close> installs.\<close>

definition default_schema :: schema where
  "default_schema =
     Schema (Some ''/Message'') (Some ''object'') None False
       [(''id'', Schema None (Some ''string'') None True []),
        (''attempt_id'', Schema None (Some ''string'') None True []),
        (''progress'', Schema None (Some ''number'') None True []),
        (''score'', Schema None (Some ''number'') None True []),
        (''timestamp'', Schema None (Some ''string'') (Some ''date-time'') True []),
        (''type'', Schema None (Some ''string'') None True []),
        (''user_id'', Schema None (Some ''string'') None True [])]"

definition default_config :: config where
  "default_config =
     \<lparr> server_brainspark_host = ''localhost'',
       server_brainspark_port = 8080,
       http_timeout = 10000,
       msg_keycount = 7,
       msg_schema = default_schema,
       brainspark_method =
         [(''attempt'', ''Participation.GetAttempt''),
          (''course'', ''Content.GetCourse''),
          (''trainee'', ''Account.GetUser''),
          (''user'', ''Account.GetUser'')],
       elastic_type = ''event'',
       elastic_indexprefix = ''events-'' \<rparr>"

text \<open>
  \<^verbatim>\<open>loadConfiguration\<close>: the argument is what \<^verbatim>\<open>YAML.load('config.yml')\<close> gives,
  \<open>None\<close> when it throws or returns \<^verbatim>\<open>null\<close>.
\<close>

definition loadConfiguration :: "config option \<Rightarrow> config" where
  "loadConfiguration loaded = (case loaded of Some c \<Rightarrow> c | None \<Rightarrow> default_config)"

section \<open>Schema validation\<close>

type_synonym formats = "string \<Rightarrow> (string \<Rightarrow> bool) option"

text \<open>
  Modelled from the spec: the function \<^verbatim>\<open>validate\<close> of the package \<^verbatim>\<open>jsonschema\<close>,
  which app.js calls and which is not among the sources, in the four definitions that
  follow. The spec has it check that the message is a keyed record (not null, not a
  primitive or sequence), that every required field is present and that every field has
  the type and the format the schema gives. The table of formats (a predicate on
  strings for each format name, here for \<^verbatim>\<open>date-time\<close>) is a parameter. First the test
  of a type name: a keyed record is an \<^verbatim>\<open>object\<close>, a sequence is not.
\<close>

definition test_type :: "string \<Rightarrow> jsval \<Rightarrow> bool" where
  "test_type t v =
     (if t = ''object'' then (case v of JObj kvs \<Rightarrow> True | _ \<Rightarrow> False)
      else if t = ''array'' then (case v of JArr xs \<Rightarrow> True | _ \<Rightarrow> False)
      else if t = ''string'' then (case v of JStr s \<Rightarrow> True | _ \<Rightarrow> False)
      else if t = ''number'' then (case v of JNum n \<Rightarrow> True | _ \<Rightarrow> False)
      else if t = ''boolean'' then (case v of JBool b \<Rightarrow> True | _ \<Rightarrow> False)
      else if t = ''null'' then v = JNull
      else True)"

text \<open>
  Modelled from the spec: a format constrains strings only, and a format that the table
  does not know constrains nothing.
\<close>

definition isFormat :: "formats \<Rightarrow> jsval \<Rightarrow> string \<Rightarrow> bool" where
  "isFormat fmts v f =
     (case v of
        JStr s \<Rightarrow> (case fmts f of Some p \<Rightarrow> p s | None \<Rightarrow> True)
      | _ \<Rightarrow> True)"

text \<open>
  Modelled from the spec: a value conforms to a schema when it has the type and the
  format the schema gives, is there if the schema requires it, and, if it is a keyed
  record, has every listed property conform to the schema of that property. A property
  that is absent reads as \<^verbatim>\<open>undefined\<close>; \<^verbatim>\<open>type\<close> and \<^verbatim>\<open>format\<close> pass on
  \<^verbatim>\<open>undefined\<close> and \<^verbatim>\<open>required\<close> fails on it.
\<close>

fun validateSchema :: "formats \<Rightarrow> jsval \<Rightarrow> schema \<Rightarrow> bool" where
  "validateSchema fmts v (Schema i ty fmt req props) =
     ((v = JUndefined \<or> (case ty of None \<Rightarrow> True | Some t \<Rightarrow> test_type t v)) \<and>
      (v = JUndefined \<or> (case fmt of None \<Rightarrow> True | Some f \<Rightarrow> isFormat fmts v f)) \<and>
      \<not> (v = JUndefined \<and> req) \<and>
      (case v of
         JObj kvs \<Rightarrow> (\<forall>(k, s) \<in> set props. validateSchema fmts (get_prop v k) s)
       | _ \<Rightarrow> True))"

text \<open>
  Modelled from the spec: \<^verbatim>\<open>validate(instance, schema).valid\<close>.
\<close>

definition validate :: "formats \<Rightarrow> jsval \<Rightarrow> schema \<Rightarrow> bool" where
  "validate fmts instance s = validateSchema fmts instance s"

section \<open>The world outside the program\<close>

text \<open>
  The options that \<^verbatim>\<open>getDetails\<close> hands to \<^verbatim>\<open>request\<close>: the url
  \<^verbatim>\<open>http://host:port/\<close> is kept as host and port, \<^verbatim>\<open>json\<close> is the JSON-RPC body.
\<close>

record request_options =
  url :: "string \<times> int"
  http_method :: string
  headers_Accept :: string
  timeout :: int
  json_jsonrpc :: string
  json_method :: "string option"
  json_id :: string
  json_params_id :: jsval

text \<open>
  What \<^verbatim>\<open>request\<close> passes to its callback: \<^verbatim>\<open>error\<close>, the \<^verbatim>\<open>statusCode\<close> of
  \<^verbatim>\<open>response\<close> (\<open>None\<close> when there is no response object) and \<^verbatim>\<open>body\<close>.
\<close>

record callback_args =
  cb_error :: jsval
  cb_response :: "int option"
  cb_body :: jsval

text \<open>The argument of \<^verbatim>\<open>elasticClient.create\<close>.\<close>

record create_params =
  es_index :: string
  es_type :: string
  es_id :: string
  es_body :: jsval

text \<open>
  What the program does to the outside, in the order it does it. \<open>Call\<close> is not an
  effect: it marks an entry into \<^verbatim>\<open>getDetails\<close> with its two arguments, so that the
  trace shows a lookup stage that was attempted without a remote call. \<open>Unhandled\<close> is a
  promise rejected with nobody listening.
\<close>

datatype event =
    Call string jsval
  | Request request_options
  | Create create_params
  | Log jsval
  | Finish
  | Unhandled js_error

text \<open>
  The collaborators, as functions: the format table of the schema validator,
  \<^verbatim>\<open>JSON.parse\<close> (\<open>None\<close> when it throws a \<^verbatim>\<open>SyntaxError\<close>), the successive results of
  \<^verbatim>\<open>uuid.v4()\<close>, the answer of the remote service to a request and the error (or a falsy
  value) that the store passes to the callback of \<^verbatim>\<open>create\<close>. The last two may depend
  on everything that happened before. Every request is answered: the callback of
  \<^verbatim>\<open>request\<close> runs once, at the latest when the configured timeout expires.
\<close>

record env =
  FORMAT_REGEXPS :: formats
  JSON_parse :: "string \<Rightarrow> jsval option"
  uuid_v4 :: "nat \<Rightarrow> string"
  request :: "event list \<Rightarrow> request_options \<Rightarrow> callback_args"
  elasticClient_create :: "event list \<Rightarrow> create_params \<Rightarrow> jsval"

text \<open>
  The state: the cells that hold the decoded messages (a message is passed by reference
  and changed in place), the number of cells and of uuids drawn, and the trace.
\<close>

record world =
  heap :: "nat \<Rightarrow> jsval"
  next_ref :: nat
  uuid_calls :: nat
  trace :: "event list"

definition emit :: "event \<Rightarrow> world \<Rightarrow> world" where
  "emit e w = w\<lparr>trace := trace w @ [e]\<rparr>"

definition uuid :: "env \<Rightarrow> world \<Rightarrow> string \<times> world" where
  "uuid env w = (uuid_v4 env (uuid_calls w), w\<lparr>uuid_calls := Suc (uuid_calls w)\<rparr>)"

definition alloc :: "jsval \<Rightarrow> world \<Rightarrow> nat \<times> world" where
  "alloc v w =
     (next_ref w, w\<lparr>heap := (heap w)(next_ref w := v), next_ref := Suc (next_ref w)\<rparr>)"

definition assign :: "nat \<Rightarrow> string \<Rightarrow> jsval \<Rightarrow> world \<Rightarrow> world" where
  "assign r k x w = w\<lparr>heap := (heap w)(r := set_prop (heap w r) k x)\<rparr>"

text \<open>
  The callbacks that a promise chain leaves behind run after the function that built the
  chain has returned: a function that starts a chain returns the world and the rest of
  the chain, a function from the world at the time it runs. The links of one chain run
  one after the other, each when the lookup before it has settled; the task runs them in
  one go, which gives the effects of one message in their order. What other messages do
  in between touches neither the cell of this message nor that order.
\<close>

type_synonym task = "world \<Rightarrow> world"

section \<open>Index Writer\<close>

text \<open>
  \<^verbatim>\<open>indexToElastic\<close>: \<^verbatim>\<open>msg.timestamp.split('T')[0]\<close> throws a \<^verbatim>\<open>TypeError\<close> unless
  the timestamp is a string; the index is computed before the uuid is drawn. The error
  that the store reports is logged.
\<close>

definition indexToElastic :: "config \<Rightarrow> env \<Rightarrow> nat \<Rightarrow> world \<Rightarrow> js_error + world" where
  "indexToElastic cfg env msg w =
     (case get_prop (heap w msg) ''timestamp'' of
        JStr ts \<Rightarrow>
          (let date = (case split CHR ''T'' ts of d # ds \<Rightarrow> d | [] \<Rightarrow> ''undefined'');
               (u, w1) = uuid env w;
               params = \<lparr> es_index = elastic_indexprefix cfg @ date,
                          es_type = elastic_type cfg,
                          es_id = u,
                          es_body = heap w msg \<rparr>;
               error = elasticClient_create env (trace w1) params;
               w2 = emit (Create params) w1
           in Inr (if truthy error then emit (Log error) w2 else w2))
      | _ \<Rightarrow> Inl TypeError)"

section \<open>Schema Validator\<close>

definition isIndexableMessage :: "config \<Rightarrow> env \<Rightarrow> nat \<Rightarrow> world \<Rightarrow> bool \<times> world" where
  "isIndexableMessage cfg env msg w =
     (if typeof (heap w msg) \<noteq> ''object'' \<or> heap w msg = JNull then (False, w)
      else if Object_keys_length (heap w msg) > msg_keycount cfg then (False, w)
      else if \<not> validate (FORMAT_REGEXPS env) (heap w msg) (msg_schema cfg) then (False, w)
      else if get_prop (heap w msg) ''type'' = JStr ''FOO'' then (False, w)
      else (True, w))"

section \<open>Lookup Gateway\<close>

text \<open>The outcome of a promise once it is settled.\<close>

datatype promise = Resolved jsval | Rejected jsval

text \<open>
  The callback that \<^verbatim>\<open>getDetails\<close> gives to \<^verbatim>\<open>request\<close>. The second test,
  \<^verbatim>\<open>response && (...)\<close>, holds only when there is a response, which then has the status
  code that \<^verbatim>\<open>reject\<close> receives.
\<close>

definition getDetails_callback :: "callback_args \<Rightarrow> promise" where
  "getDetails_callback cb =
     (let error = cb_error cb; response = cb_response cb; body = cb_body cb in
      if truthy error then Rejected error
      else if (case response of Some statusCode \<Rightarrow> statusCode < 200 \<or> statusCode > 299
               | None \<Rightarrow> False)
      then (case response of Some statusCode \<Rightarrow> Rejected (JNum (of_int statusCode))
            | None \<Rightarrow> Rejected JUndefined)
      else if \<not> truthy body \<or> \<not> truthy (get_prop body ''result'')
              \<or> \<not> truthy (get_prop (get_prop body ''result'') ''data'')
      then Resolved JNull
      else Resolved (get_prop (get_prop body ''result'') ''data''))"

definition getDetails :: "config \<Rightarrow> env \<Rightarrow> string \<Rightarrow> jsval \<Rightarrow> world \<Rightarrow> promise \<times> world" where
  "getDetails cfg env kind ident w0 =
     (let w = emit (Call kind ident) w0 in
      if \<not> truthy ident then (Resolved JNull, w)
      else
        (let (u, w1) = uuid env w;
             requestOptions =
               \<lparr> url = (server_brainspark_host cfg, server_brainspark_port cfg),
                 http_method = ''POST'',
                 headers_Accept = ''application/json'',
                 timeout = http_timeout cfg,
                 json_jsonrpc = ''2.0'',
                 json_method = map_of (brainspark_method cfg) kind,
                 json_id = u,
                 json_params_id = ident \<rparr>
         in (getDetails_callback (request env (trace w1) requestOptions),
             emit (Request requestOptions) w1)))"

section \<open>Enrichment Orchestrator\<close>

text \<open>
  The four nested links of the chain in \<^verbatim>\<open>hydrateAndIndex\<close>, innermost first. Both
  handlers of every \<^verbatim>\<open>then\<close> return normally, so the link after it always runs.
\<close>

definition resolve_user :: "config \<Rightarrow> env \<Rightarrow> nat \<Rightarrow> task" where
  "resolve_user cfg env fullMessage w =
     (let (p, w1) = getDetails cfg env ''user'' (get_prop (heap w fullMessage) ''user_id'') w;
          w2 = (case p of
                  Resolved result \<Rightarrow>
                    if truthy result then assign fullMessage ''user'' result w1 else w1
                | Rejected err \<Rightarrow> emit (Log err) w1)
      in (case indexToElastic cfg env fullMessage w2 of
            Inr w3 \<Rightarrow> w3
          | Inl e \<Rightarrow> emit (Unhandled e) w2))"

definition resolve_trainee :: "config \<Rightarrow> env \<Rightarrow> nat \<Rightarrow> task" where
  "resolve_trainee cfg env fullMessage w =
     (let (p, w1) =
            getDetails cfg env ''trainee'' (get_prop (heap w fullMessage) ''trainee_id'') w;
          w2 = (case p of
                  Resolved result \<Rightarrow>
                    if truthy result then assign fullMessage ''trainee'' result w1 else w1
                | Rejected err \<Rightarrow> emit (Log err) w1)
      in resolve_user cfg env fullMessage w2)"

definition resolve_course :: "config \<Rightarrow> env \<Rightarrow> nat \<Rightarrow> task" where
  "resolve_course cfg env fullMessage w =
     (let (p, w1) =
            getDetails cfg env ''course'' (get_prop (heap w fullMessage) ''course_id'') w;
          w2 = (case p of
                  Resolved result \<Rightarrow>
                    if truthy result then assign fullMessage ''course'' result w1 else w1
                | Rejected err \<Rightarrow> emit (Log err) w1)
      in resolve_trainee cfg env fullMessage w2)"

definition resolve_attempt :: "config \<Rightarrow> env \<Rightarrow> nat \<Rightarrow> promise \<Rightarrow> task" where
  "resolve_attempt cfg env fullMessage p w =
     (let w2 = (case p of
                  Resolved result \<Rightarrow>
                    if truthy result then
                      (let wa = assign fullMessage ''attempt'' result w;
                           wb = assign fullMessage ''course_id''
                                  (get_prop (get_prop (heap wa fullMessage) ''attempt'') ''course_id'') wa
                       in assign fullMessage ''trainee_id''
                            (get_prop (get_prop (heap wb fullMessage) ''attempt'') ''trainee_id'') wb)
                    else w
                | Rejected err \<Rightarrow> emit (Log err) w)
      in resolve_course cfg env fullMessage w2)"

text \<open>
  \<^verbatim>\<open>hydrateAndIndex\<close>: the first call of \<^verbatim>\<open>getDetails\<close> is made at once, the rest is
  the chain. Reading \<^verbatim>\<open>attempt_id\<close> from \<^verbatim>\<open>null\<close> or \<^verbatim>\<open>undefined\<close> throws.
\<close>

definition hydrateAndIndex :: "config \<Rightarrow> env \<Rightarrow> nat \<Rightarrow> world \<Rightarrow> js_error + world \<times> task" where
  "hydrateAndIndex cfg env msg w =
     (let fullMessage = msg in
      if heap w fullMessage = JNull \<or> heap w fullMessage = JUndefined then Inl TypeError
      else
        (let (p, w1) =
               getDetails cfg env ''attempt'' (get_prop (heap w fullMessage) ''attempt_id'') w
         in Inr (w1, resolve_attempt cfg env fullMessage p)))"

definition transformMessage :: "config \<Rightarrow> env \<Rightarrow> nat \<Rightarrow> world \<Rightarrow> js_error + world \<times> task" where
  "transformMessage cfg env msg w =
     (let (indexable, w1) = isIndexableMessage cfg env msg w in
      if indexable then hydrateAndIndex cfg env msg w1 else Inr (w1, (\<lambda>w'. w')))"

section \<open>Stream Pump\<close>

text \<open>
  The handler that \<^verbatim>\<open>startReader\<close> registers for \<^verbatim>\<open>message\<close>; the argument is
  \<^verbatim>\<open>msg.body.toString()\<close>. An exception leaves the handler before the statements after
  the one that threw: the result is the exception, if any, the world when the handler is
  left and the task it leaves behind.
\<close>

definition on_message :: "config \<Rightarrow> env \<Rightarrow> string \<Rightarrow> world \<Rightarrow> js_error option \<times> world \<times> task" where
  "on_message cfg env payload w =
     (case JSON_parse env payload of
        None \<Rightarrow> (Some SyntaxError, w, (\<lambda>w'. w'))
      | Some v \<Rightarrow>
          (let (r, w1) = alloc v w in
           case transformMessage cfg env r w1 of
             Inl e \<Rightarrow> (Some e, w1, (\<lambda>w'. w'))
           | Inr (w2, k) \<Rightarrow> (None, emit Finish w2, k)))"

section \<open>Reading the trace\<close>

fun calls :: "event list \<Rightarrow> (string \<times> jsval) list" where
  "calls [] = []"
| "calls (Call kind ident # es) = (kind, ident) # calls es"
| "calls (e # es) = calls es"

fun requests :: "event list \<Rightarrow> request_options list" where
  "requests [] = []"
| "requests (Request q # es) = q # requests es"
| "requests (e # es) = requests es"

fun creates :: "event list \<Rightarrow> create_params list" where
  "creates [] = []"
| "creates (Create d # es) = d # creates es"
| "creates (e # es) = creates es"

section \<open>Example data\<close>

text \<open>The message of the validation test in app.js, and its JSON text.\<close>

definition test_data :: jsval where
  "test_data =
     JObj [(''id'', JStr ''5c92de28-14f0-449e-821b-e61e871179c2''),
           (''attempt_id'', JStr ''e70a6ecf-f308-4306-831d-bb41c851061d''),
           (''progress'', JNum 0.63414633),
           (''score'', JNum 0.96158886),
           (''timestamp'', JStr ''2018-01-16T14:09:51.655185082-07:00''),
           (''type'', JStr ''PROGRESS''),
           (''user_id'', JStr ''471de972-520c-4f44-bd6d-34cc98dd5e6e'')]"

definition test_payload :: string where
  \<open>test_payload = ''{"id":"5c92de28-14f0-449e-821b-e61e871179c2","attempt_id":"e70a6ecf-f308-4306-831d-bb41c851061d","progress":0.63414633,"score":0.96158886,"timestamp":"2018-01-16T14:09:51.655185082-07:00","type":"PROGRESS","user_id":"471de972-520c-4f44-bd6d-34cc98dd5e6e"}''\<close>

text \<open>
  An environment for the examples. Its format table accepts as \<^verbatim>\<open>date-time\<close> a string
  with \<^verbatim>\<open>-\<close> at positions 4 and 7 and \<^verbatim>\<open>T\<close> at position 10; its parser is
  \<^verbatim>\<open>JSON.parse\<close> on the text above and on the text \<^verbatim>\<open>{\<close>, which is not JSON. The
  remote service knows the attempt and the user and fails with status 500 on the course;
  the store accepts every document.
\<close>

definition example_date_time :: "string \<Rightarrow> bool" where
  "example_date_time s =
     (take 1 (drop 4 s) = ''-'' \<and> take 1 (drop 7 s) = ''-'' \<and> take 1 (drop 10 s) = ''T'')"

definition attempt_record :: jsval where
  "attempt_record =
     JObj [(''id'', JStr ''e70a6ecf-f308-4306-831d-bb41c851061d''),
           (''course_id'', JStr ''c-1''),
           (''trainee_id'', JStr ''t-1'')]"

definition example_request :: "event list \<Rightarrow> request_options \<Rightarrow> callback_args" where
  "example_request history q =
     (if json_method q = Some ''Participation.GetAttempt'' then
        \<lparr> cb_error = JNull, cb_response = Some 200,
          cb_body = JObj [(''result'', JObj [(''data'', attempt_record)])] \<rparr>
      else if json_method q = Some ''Content.GetCourse'' then
        \<lparr> cb_error = JNull, cb_response = Some 500, cb_body = JUndefined \<rparr>
      else
        \<lparr> cb_error = JNull, cb_response = Some 200,
          cb_body = JObj [(''result'', JObj [(''data'', JObj [(''account_id'', JStr ''a-1'')])])] \<rparr>)"

definition example_env :: env where
  "example_env =
     \<lparr> FORMAT_REGEXPS = [''date-time'' \<mapsto> example_date_time],
       JSON_parse = [test_payload \<mapsto> test_data],
       uuid_v4 = (\<lambda>n. replicate (Suc n) CHR ''u''),
       request = example_request,
       elasticClient_create = (\<lambda>history d. JNull) \<rparr>"

text \<open>The same environment with the remote service unreachable.\<close>

definition down_env :: env where
  "down_env =
     example_env\<lparr> request :=
       (\<lambda>history q. \<lparr> cb_error = JStr ''ETIMEDOUT'', cb_response = None, cb_body = JUndefined \<rparr>) \<rparr>"

text \<open>The world at start, and the world with the test message in cell 0.\<close>

definition world0 :: world where
  "world0 = \<lparr> heap = (\<lambda>r. JUndefined), next_ref = 0, uuid_calls = 0, trace = [] \<rparr>"

definition test_world :: world where
  "test_world = snd (alloc test_data world0)"

section \<open>Basic facts\<close>

lemma split_nonempty: "split c s \<noteq> []"
  by (induction s) (auto split: list.splits)

lemma split_hd: "split c s = takeWhile (\<lambda>x. x \<noteq> c) s # tl (split c s)"
  by (induction s) (auto split: list.splits)

lemma split_first:
  "(case split c s of d # ds \<Rightarrow> d | [] \<Rightarrow> e) = takeWhile (\<lambda>x. x \<noteq> c) s"
proof (cases "split c s")
  case Nil
  then show ?thesis by (simp add: split_nonempty)
next
  case (Cons d ds)
  with split_hd [of c s] show ?thesis by simp
qed

lemma calls_append [simp]: "calls (xs @ ys) = calls xs @ calls ys"
  by (induction xs rule: calls.induct) simp_all

lemma requests_append [simp]: "requests (xs @ ys) = requests xs @ requests ys"
  by (induction xs rule: requests.induct) simp_all

lemma creates_append [simp]: "creates (xs @ ys) = creates xs @ creates ys"
  by (induction xs rule: creates.induct) simp_all

lemma emit_simps [simp]:
  "heap (emit e w) = heap w" "trace (emit e w) = trace w @ [e]"
  "uuid_calls (emit e w) = uuid_calls w" "next_ref (emit e w) = next_ref w"
  by (simp_all add: emit_def)

lemma uuid_simps [simp]:
  "heap (snd (uuid env w)) = heap w" "trace (snd (uuid env w)) = trace w"
  "fst (uuid env w) = uuid_v4 env (uuid_calls w)"
  by (simp_all add: uuid_def)

lemma assign_simps [simp]:
  "trace (assign r k x w) = trace w"
  "heap (assign r k x w) r = set_prop (heap w r) k x"
  "r' \<noteq> r \<Longrightarrow> heap (assign r k x w) r' = heap w r'"
  by (simp_all add: assign_def)

section \<open>Schema Validator: the verdict\<close>

text \<open>
  What the configured schema asks of a value other than \<^verbatim>\<open>undefined\<close>: it is an object
  whose seven listed properties are there with their types, the timestamp in the
  \<^verbatim>\<open>date-time\<close> format when the table knows that format.
\<close>

lemma validate_default:
  "v \<noteq> JUndefined \<Longrightarrow> validate fmts v default_schema \<longleftrightarrow>
     (\<exists>kvs. v = JObj kvs \<and>
        (\<exists>s. map_of kvs ''id'' = Some (JStr s)) \<and>
        (\<exists>s. map_of kvs ''attempt_id'' = Some (JStr s)) \<and>
        (\<exists>n. map_of kvs ''progress'' = Some (JNum n)) \<and>
        (\<exists>n. map_of kvs ''score'' = Some (JNum n)) \<and>
        (\<exists>s. map_of kvs ''timestamp'' = Some (JStr s) \<and>
             (case fmts ''date-time'' of Some p \<Rightarrow> p s | None \<Rightarrow> True)) \<and>
        (\<exists>s. map_of kvs ''type'' = Some (JStr s)) \<and>
        (\<exists>s. map_of kvs ''user_id'' = Some (JStr s)))"
  apply (cases v)
  apply (simp_all add: validate_def default_schema_def test_type_def isFormat_def)
  apply (auto split: option.splits jsval.splits)
  done

text \<open>
  C2. Under the default configuration, and with \<open>date_time\<close> the predicate that the
  validator's format table holds for \<^verbatim>\<open>date-time\<close>, \<^verbatim>\<open>isIndexableMessage\<close> returns true
  if and only if the message is a keyed record (so neither \<^verbatim>\<open>null\<close>, nor a primitive, nor
  an array) with at most 7 top-level keys, in which \<^verbatim>\<open>id\<close>, \<^verbatim>\<open>attempt_id\<close>, \<^verbatim>\<open>user_id\<close>
  and \<^verbatim>\<open>type\<close> are strings, \<^verbatim>\<open>progress\<close> and \<^verbatim>\<open>score\<close> are numbers, \<^verbatim>\<open>timestamp\<close> is a
  string in the date-time format, and \<^verbatim>\<open>type\<close> is not \<^verbatim>\<open>FOO\<close>; in every other case it
  returns false.
\<close>

theorem isIndexableMessage_iff:
  assumes "FORMAT_REGEXPS env ''date-time'' = Some date_time"
  shows "fst (isIndexableMessage default_config env msg w) \<longleftrightarrow>
     (\<exists>kvs. heap w msg = JObj kvs \<and> length (remdups (map fst kvs)) \<le> 7 \<and>
        (\<exists>s. map_of kvs ''id'' = Some (JStr s)) \<and>
        (\<exists>s. map_of kvs ''attempt_id'' = Some (JStr s)) \<and>
        (\<exists>s. map_of kvs ''user_id'' = Some (JStr s)) \<and>
        (\<exists>s. map_of kvs ''type'' = Some (JStr s) \<and> s \<noteq> ''FOO'') \<and>
        (\<exists>n. map_of kvs ''progress'' = Some (JNum n)) \<and>
        (\<exists>n. map_of kvs ''score'' = Some (JNum n)) \<and>
        (\<exists>s. map_of kvs ''timestamp'' = Some (JStr s) \<and> date_time s))"
proof (cases "heap w msg")
  case (JObj kvs)
  have cfg: "msg_keycount default_config = 7" "msg_schema default_config = default_schema"
    by (simp_all add: default_config_def)
  show ?thesis
    unfolding isIndexableMessage_def cfg
    using assms by (auto simp add: JObj validate_default)
next
  case JUndefined
  then show ?thesis by (simp add: isIndexableMessage_def)
next
  case JNull
  then show ?thesis by (simp add: isIndexableMessage_def)
next
  case (JBool b)
  then show ?thesis by (simp add: isIndexableMessage_def)
next
  case (JNum n)
  then show ?thesis by (simp add: isIndexableMessage_def)
next
  case (JStr s)
  then show ?thesis by (simp add: isIndexableMessage_def)
next
  case (JArr xs)
  have cfg: "msg_schema default_config = default_schema"
    by (simp add: default_config_def)
  show ?thesis
    unfolding isIndexableMessage_def cfg
    by (simp add: JArr validate_default)
qed

text \<open>
  C9. \<^verbatim>\<open>isIndexableMessage\<close> is pure. It returns the world it was given: the message and
  every other cell are as before, no uuid is drawn, the trace has no new entry (no
  lookup, no store write, no log line, no acknowledgement), and it leaves no task behind,
  so it never suspends. Its verdict is a function of the configuration, the validator's
  format table and the message alone: equal messages get the same verdict, whatever the
  rest of the world and of the environment.
\<close>

theorem isIndexableMessage_pure:
  "snd (isIndexableMessage cfg env msg w) = w \<and>
   (heap w' msg' = heap w msg \<and> FORMAT_REGEXPS env' = FORMAT_REGEXPS env \<longrightarrow>
      fst (isIndexableMessage cfg env' msg' w') = fst (isIndexableMessage cfg env msg w))"
  by (simp add: isIndexableMessage_def)

section \<open>Lookup Gateway: outcomes\<close>

text \<open>
  C6. With an id that is empty or absent (the empty string, \<^verbatim>\<open>undefined\<close>, and any other
  falsy value), \<^verbatim>\<open>getDetails\<close> resolves to \<^verbatim>\<open>null\<close> at once, for every entity type:
  the world is the one it was given with the entry into \<^verbatim>\<open>getDetails\<close> marked, no uuid
  drawn, and the trace has no new request.
\<close>

theorem getDetails_no_id:
  assumes "\<not> truthy ident"
  shows "getDetails cfg env kind ident w = (Resolved JNull, emit (Call kind ident) w) \<and>
         requests (trace (snd (getDetails cfg env kind ident w))) = requests (trace w)"
  using assms by (simp add: getDetails_def)

lemma getDetails_callback_cases:
  "getDetails_callback cb =
     (if truthy (cb_error cb) then Rejected (cb_error cb)
      else if \<exists>sc. cb_response cb = Some sc \<and> (sc < 200 \<or> 299 < sc)
        then Rejected (JNum (of_int (the (cb_response cb))))
      else if \<not> truthy (cb_body cb) \<or> \<not> truthy (get_prop (cb_body cb) ''result'')
              \<or> \<not> truthy (get_prop (get_prop (cb_body cb) ''result'') ''data'')
        then Resolved JNull
      else Resolved (get_prop (get_prop (cb_body cb) ''result'') ''data''))"
  by (auto simp add: getDetails_callback_def Let_def split: option.splits)

text \<open>
  C5. With an id that is not empty, \<^verbatim>\<open>getDetails\<close> issues one request \<open>q\<close>, for the id and
  the method configured for the entity type. With \<open>cb\<close> the answer to \<open>q\<close>, the promise is
  rejected if and only if \<open>cb\<close> carries a transport error or a response whose status code
  is below 200 or above 299; it is rejected with the error in the first case and with the
  status code in the second. Otherwise it resolves to \<^verbatim>\<open>null\<close> when the body, its
  \<^verbatim>\<open>result\<close> or its \<^verbatim>\<open>result.data\<close> is missing (falsy), and to \<^verbatim>\<open>body.result.data\<close>
  when all three are there.
\<close>

theorem getDetails_outcome:
  assumes "truthy ident"
  shows "\<exists>q. requests (trace (snd (getDetails cfg env kind ident w))) = requests (trace w) @ [q] \<and>
     json_params_id q = ident \<and> json_method q = map_of (brainspark_method cfg) kind \<and>
     (let cb = request env (trace w @ [Call kind ident]) q;
          p = fst (getDetails cfg env kind ident w);
          failed = (truthy (cb_error cb) \<or>
                    (\<exists>sc. cb_response cb = Some sc \<and> (sc < 200 \<or> 299 < sc)));
          result = get_prop (cb_body cb) ''result'';
          data = get_prop result ''data''
      in ((\<exists>e. p = Rejected e) \<longleftrightarrow> failed) \<and>
         (truthy (cb_error cb) \<longrightarrow> p = Rejected (cb_error cb)) \<and>
         (\<not> truthy (cb_error cb) \<longrightarrow>
            (\<forall>sc. cb_response cb = Some sc \<and> (sc < 200 \<or> 299 < sc) \<longrightarrow>
               p = Rejected (JNum (of_int sc)))) \<and>
         (\<not> failed \<and> (\<not> truthy (cb_body cb) \<or> \<not> truthy result \<or> \<not> truthy data) \<longrightarrow>
            p = Resolved JNull) \<and>
         (\<not> failed \<and> truthy (cb_body cb) \<and> truthy result \<and> truthy data \<longrightarrow>
            p = Resolved data))"
  using assms
  by (auto simp add: getDetails_def Let_def split_beta getDetails_callback_cases)

section \<open>Index Writer: the partition\<close>

lemma indexToElastic_string:
  assumes "get_prop (heap w msg) ''timestamp'' = JStr ts"
  shows "\<exists>w' d. indexToElastic cfg env msg w = Inr w' \<and>
           creates (trace w') = creates (trace w) @ [d] \<and>
           calls (trace w') = calls (trace w) \<and>
           requests (trace w') = requests (trace w) \<and>
           heap w' = heap w \<and>
           (\<exists>es. trace w' = trace w @ es \<and> Finish \<notin> set es) \<and>
           es_body d = heap w msg \<and>
           es_index d = elastic_indexprefix cfg @ takeWhile (\<lambda>c. c \<noteq> CHR ''T'') ts"
  using assms by (simp add: indexToElastic_def Let_def split_beta split_first)

text \<open>
  C7. For a message whose timestamp is a string, \<^verbatim>\<open>indexToElastic\<close> writes one document,
  to the index named by the configured prefix followed by the timestamp up to its first
  \<^verbatim>\<open>T\<close>, which is the calendar date of an ISO-8601 timestamp. For the timestamp
  \<^verbatim>\<open>2018-01-16T14:09:51.655Z\<close> and the prefix \<^verbatim>\<open>events-\<close> the index is
  \<^verbatim>\<open>events-2018-01-16\<close>.
\<close>

theorem indexToElastic_partition:
  "(get_prop (heap w msg) ''timestamp'' = JStr ts \<longrightarrow>
      (\<exists>w' d. indexToElastic cfg env msg w = Inr w' \<and>
         creates (trace w') = creates (trace w) @ [d] \<and>
         es_index d = elastic_indexprefix cfg @ takeWhile (\<lambda>c. c \<noteq> CHR ''T'') ts)) \<and>
   (get_prop (heap w msg) ''timestamp'' = JStr ''2018-01-16T14:09:51.655Z'' \<and>
    elastic_indexprefix cfg = ''events-'' \<longrightarrow>
      (\<exists>w' d. indexToElastic cfg env msg w = Inr w' \<and>
         creates (trace w') = creates (trace w) @ [d] \<and>
         es_index d = ''events-2018-01-16''))"
proof (intro conjI impI)
  assume "get_prop (heap w msg) ''timestamp'' = JStr ts"
  from indexToElastic_string [OF this, of cfg env]
  show "\<exists>w' d. indexToElastic cfg env msg w = Inr w' \<and>
         creates (trace w') = creates (trace w) @ [d] \<and>
         es_index d = elastic_indexprefix cfg @ takeWhile (\<lambda>c. c \<noteq> CHR ''T'') ts"
    by blast
next
  assume "get_prop (heap w msg) ''timestamp'' = JStr ''2018-01-16T14:09:51.655Z'' \<and>
    elastic_indexprefix cfg = ''events-''"
  then have ts: "get_prop (heap w msg) ''timestamp'' = JStr ''2018-01-16T14:09:51.655Z''"
    and pre: "elastic_indexprefix cfg = ''events-''"
    by simp_all
  from indexToElastic_string [OF ts, of cfg env]
  obtain w' d where "indexToElastic cfg env msg w = Inr w'"
    "creates (trace w') = creates (trace w) @ [d]"
    "es_index d = elastic_indexprefix cfg @
       takeWhile (\<lambda>c. c \<noteq> CHR ''T'') ''2018-01-16T14:09:51.655Z''"
    by blast
  then show "\<exists>w' d. indexToElastic cfg env msg w = Inr w' \<and>
         creates (trace w') = creates (trace w) @ [d] \<and>
         es_index d = ''events-2018-01-16''"
    using pre by simp
qed

section \<open>Enrichment Orchestrator: the links of the chain\<close>

lemma get_prop_set_prop_other:
  "k' \<noteq> k \<Longrightarrow> get_prop (set_prop v k x) k' = get_prop v k'"
  by (cases v) (simp_all add: update_conv')

lemma getDetails_frame:
  assumes "getDetails cfg env kind ident w = (p, w1)"
  shows "heap w1 = heap w"
    and "calls (trace w1) = calls (trace w) @ [(kind, ident)]"
    and "creates (trace w1) = creates (trace w)"
    and "\<exists>es. trace w1 = trace w @ es \<and> Finish \<notin> set es"
    and "\<exists>rs. requests (trace w1) = requests (trace w) @ rs \<and> length rs \<le> 1 \<and>
           (\<not> truthy ident \<longrightarrow> rs = []) \<and>
           (\<forall>q \<in> set rs. json_params_id q = ident \<and>
              json_method q = map_of (brainspark_method cfg) kind)"
  using assms
  by (auto simp add: getDetails_def Let_def split_beta split: if_splits)

text \<open>What the two handlers of a stage do to the world.\<close>

lemma handlers_frame:
  assumes "w2 = (case p of
                   Resolved result \<Rightarrow> if truthy result then assign m key result w1 else w1
                 | Rejected err \<Rightarrow> emit (Log err) w1)"
  shows "calls (trace w2) = calls (trace w1)"
    and "creates (trace w2) = creates (trace w1)"
    and "requests (trace w2) = requests (trace w1)"
    and "\<exists>es. trace w2 = trace w1 @ es \<and> Finish \<notin> set es"
    and "k \<noteq> key \<Longrightarrow> get_prop (heap w2 m) k = get_prop (heap w1 m) k"
    and "heap w2 m = heap w1 m \<or> (\<exists>u. truthy u \<and> heap w2 m = set_prop (heap w1 m) key u)"
  using assms
  by (auto simp add: get_prop_set_prop_other split: promise.splits)

text \<open>The last link writes to the store, or leaves a rejection behind.\<close>

lemma index_frame:
  assumes "w3 = (case indexToElastic cfg env m w2 of Inr w' \<Rightarrow> w' | Inl e \<Rightarrow> emit (Unhandled e) w2)"
  shows "calls (trace w3) = calls (trace w2)"
    and "requests (trace w3) = requests (trace w2)"
    and "heap w3 = heap w2"
    and "\<exists>es. trace w3 = trace w2 @ es \<and> Finish \<notin> set es"
  using assms
  by (auto simp add: indexToElastic_def Let_def split_beta split: jsval.splits)

lemma resolve_user_frame:
  shows "calls (trace (resolve_user cfg env m w)) =
           calls (trace w) @ [(''user'', get_prop (heap w m) ''user_id'')]"
    and "\<exists>es. trace (resolve_user cfg env m w) = trace w @ es \<and> Finish \<notin> set es"
    and "\<exists>rs. requests (trace (resolve_user cfg env m w)) = requests (trace w) @ rs \<and>
           length rs \<le> 1 \<and>
           (\<forall>q \<in> set rs. json_params_id q = get_prop (heap w m) ''user_id'' \<and>
              json_method q = map_of (brainspark_method cfg) ''user'')"
    and "k \<noteq> ''user'' \<Longrightarrow> get_prop (heap (resolve_user cfg env m w) m) k = get_prop (heap w m) k"
    and "heap (resolve_user cfg env m w) m = heap w m \<or>
         (\<exists>u. truthy u \<and> heap (resolve_user cfg env m w) m = set_prop (heap w m) ''user'' u)"
proof -
  obtain p w1 where g: "getDetails cfg env ''user'' (get_prop (heap w m) ''user_id'') w = (p, w1)"
    by (cases "getDetails cfg env ''user'' (get_prop (heap w m) ''user_id'') w")
  define w2 where "w2 = (case p of
                   Resolved result \<Rightarrow> if truthy result then assign m ''user'' result w1 else w1
                 | Rejected err \<Rightarrow> emit (Log err) w1)"
  define w3 where "w3 = (case indexToElastic cfg env m w2 of Inr w' \<Rightarrow> w' | Inl e \<Rightarrow> emit (Unhandled e) w2)"
  note gf = getDetails_frame [OF g]
  note hf = handlers_frame [OF w2_def]
  note xf = index_frame [OF w3_def]
  have r: "resolve_user cfg env m w = w3"
    by (simp add: resolve_user_def g w2_def [symmetric] w3_def)
  show "calls (trace (resolve_user cfg env m w)) =
           calls (trace w) @ [(''user'', get_prop (heap w m) ''user_id'')]"
    by (simp add: r xf hf gf)
  show "\<exists>es. trace (resolve_user cfg env m w) = trace w @ es \<and> Finish \<notin> set es"
    using gf(4) hf(4) xf(4) unfolding r by force
  show "\<exists>rs. requests (trace (resolve_user cfg env m w)) = requests (trace w) @ rs \<and>
           length rs \<le> 1 \<and>
           (\<forall>q \<in> set rs. json_params_id q = get_prop (heap w m) ''user_id'' \<and>
              json_method q = map_of (brainspark_method cfg) ''user'')"
    using gf(5) by (auto simp add: r xf hf)
  show "k \<noteq> ''user'' \<Longrightarrow> get_prop (heap (resolve_user cfg env m w) m) k = get_prop (heap w m) k"
    using hf(5) [of k] by (simp add: r xf gf)
  show "heap (resolve_user cfg env m w) m = heap w m \<or>
         (\<exists>u. truthy u \<and> heap (resolve_user cfg env m w) m = set_prop (heap w m) ''user'' u)"
    using hf(6) by (simp add: r xf gf)
qed

lemma resolve_user_creates:
  assumes "get_prop (heap w m) ''timestamp'' = JStr ts"
  shows "\<exists>d. creates (trace (resolve_user cfg env m w)) = creates (trace w) @ [d] \<and>
           es_body d = heap (resolve_user cfg env m w) m \<and>
           es_index d = elastic_indexprefix cfg @ takeWhile (\<lambda>c. c \<noteq> CHR ''T'') ts"
proof -
  obtain p w1 where g: "getDetails cfg env ''user'' (get_prop (heap w m) ''user_id'') w = (p, w1)"
    by (cases "getDetails cfg env ''user'' (get_prop (heap w m) ''user_id'') w")
  define w2 where "w2 = (case p of
                   Resolved result \<Rightarrow> if truthy result then assign m ''user'' result w1 else w1
                 | Rejected err \<Rightarrow> emit (Log err) w1)"
  note gf = getDetails_frame [OF g]
  note hf = handlers_frame [OF w2_def]
  have ts2: "get_prop (heap w2 m) ''timestamp'' = JStr ts"
    using hf(5) [of "''timestamp''"] gf(1) assms by simp
  from indexToElastic_string [OF ts2, of cfg env]
  obtain w3 d where i: "indexToElastic cfg env m w2 = Inr w3"
    and w3: "creates (trace w3) = creates (trace w2) @ [d]" "heap w3 = heap w2"
      "es_body d = heap w2 m"
      "es_index d = elastic_indexprefix cfg @ takeWhile (\<lambda>c. c \<noteq> CHR ''T'') ts"
    by blast
  have r: "resolve_user cfg env m w = w3"
    by (simp add: resolve_user_def g w2_def [symmetric] i)
  show ?thesis
    by (simp add: r w3 hf gf)
qed

lemma resolve_trainee_frame:
  shows "calls (trace (resolve_trainee cfg env m w)) =
           calls (trace w) @ [(''trainee'', get_prop (heap w m) ''trainee_id''),
                              (''user'', get_prop (heap w m) ''user_id'')]"
    and "\<exists>es. trace (resolve_trainee cfg env m w) = trace w @ es \<and> Finish \<notin> set es"
    and "k \<noteq> ''user'' \<Longrightarrow> k \<noteq> ''trainee'' \<Longrightarrow>
           get_prop (heap (resolve_trainee cfg env m w) m) k = get_prop (heap w m) k"
proof -
  obtain p w1 where g: "getDetails cfg env ''trainee'' (get_prop (heap w m) ''trainee_id'') w = (p, w1)"
    by (cases "getDetails cfg env ''trainee'' (get_prop (heap w m) ''trainee_id'') w")
  define w2 where "w2 = (case p of
                   Resolved result \<Rightarrow> if truthy result then assign m ''trainee'' result w1 else w1
                 | Rejected err \<Rightarrow> emit (Log err) w1)"
  note gf = getDetails_frame [OF g]
  note hf = handlers_frame [OF w2_def]
  note uf = resolve_user_frame [where cfg = cfg and env = env and m = m and w = w2]
  have r: "resolve_trainee cfg env m w = resolve_user cfg env m w2"
    by (simp add: resolve_trainee_def g w2_def [symmetric])
  have uid: "get_prop (heap w2 m) ''user_id'' = get_prop (heap w m) ''user_id''"
    using hf(5) [of "''user_id''"] gf(1) by simp
  show "calls (trace (resolve_trainee cfg env m w)) =
           calls (trace w) @ [(''trainee'', get_prop (heap w m) ''trainee_id''),
                              (''user'', get_prop (heap w m) ''user_id'')]"
    by (simp add: r uf(1) uid hf gf)
  show "\<exists>es. trace (resolve_trainee cfg env m w) = trace w @ es \<and> Finish \<notin> set es"
    using gf(4) hf(4) uf(2) unfolding r by force
  show "k \<noteq> ''user'' \<Longrightarrow> k \<noteq> ''trainee'' \<Longrightarrow>
           get_prop (heap (resolve_trainee cfg env m w) m) k = get_prop (heap w m) k"
    using hf(5) [of k] uf(4) [of k] by (simp add: r gf)
qed

lemma resolve_trainee_creates:
  assumes "get_prop (heap w m) ''timestamp'' = JStr ts"
  shows "\<exists>d. creates (trace (resolve_trainee cfg env m w)) = creates (trace w) @ [d] \<and>
           es_body d = heap (resolve_trainee cfg env m w) m \<and>
           es_index d = elastic_indexprefix cfg @ takeWhile (\<lambda>c. c \<noteq> CHR ''T'') ts"
proof -
  obtain p w1 where g: "getDetails cfg env ''trainee'' (get_prop (heap w m) ''trainee_id'') w = (p, w1)"
    by (cases "getDetails cfg env ''trainee'' (get_prop (heap w m) ''trainee_id'') w")
  define w2 where "w2 = (case p of
                   Resolved result \<Rightarrow> if truthy result then assign m ''trainee'' result w1 else w1
                 | Rejected err \<Rightarrow> emit (Log err) w1)"
  note gf = getDetails_frame [OF g]
  note hf = handlers_frame [OF w2_def]
  have r: "resolve_trainee cfg env m w = resolve_user cfg env m w2"
    by (simp add: resolve_trainee_def g w2_def [symmetric])
  have ts2: "get_prop (heap w2 m) ''timestamp'' = JStr ts"
    using hf(5) [of "''timestamp''"] gf(1) assms by simp
  from resolve_user_creates [OF ts2, of cfg env] show ?thesis
    by (simp add: r hf gf)
qed

lemma resolve_course_frame:
  shows "calls (trace (resolve_course cfg env m w)) =
           calls (trace w) @ [(''course'', get_prop (heap w m) ''course_id''),
                              (''trainee'', get_prop (heap w m) ''trainee_id''),
                              (''user'', get_prop (heap w m) ''user_id'')]"
    and "\<exists>es. trace (resolve_course cfg env m w) = trace w @ es \<and> Finish \<notin> set es"
    and "k \<noteq> ''user'' \<Longrightarrow> k \<noteq> ''trainee'' \<Longrightarrow> k \<noteq> ''course'' \<Longrightarrow>
           get_prop (heap (resolve_course cfg env m w) m) k = get_prop (heap w m) k"
proof -
  obtain p w1 where g: "getDetails cfg env ''course'' (get_prop (heap w m) ''course_id'') w = (p, w1)"
    by (cases "getDetails cfg env ''course'' (get_prop (heap w m) ''course_id'') w")
  define w2 where "w2 = (case p of
                   Resolved result \<Rightarrow> if truthy result then assign m ''course'' result w1 else w1
                 | Rejected err \<Rightarrow> emit (Log err) w1)"
  note gf = getDetails_frame [OF g]
  note hf = handlers_frame [OF w2_def]
  note tf = resolve_trainee_frame [where cfg = cfg and env = env and m = m and w = w2]
  have r: "resolve_course cfg env m w = resolve_trainee cfg env m w2"
    by (simp add: resolve_course_def g w2_def [symmetric])
  have ids: "get_prop (heap w2 m) ''user_id'' = get_prop (heap w m) ''user_id''"
    "get_prop (heap w2 m) ''trainee_id'' = get_prop (heap w m) ''trainee_id''"
    using hf(5) [of "''user_id''"] hf(5) [of "''trainee_id''"] gf(1) by simp_all
  show "calls (trace (resolve_course cfg env m w)) =
           calls (trace w) @ [(''course'', get_prop (heap w m) ''course_id''),
                              (''trainee'', get_prop (heap w m) ''trainee_id''),
                              (''user'', get_prop (heap w m) ''user_id'')]"
    by (simp add: r tf(1) ids hf gf)
  show "\<exists>es. trace (resolve_course cfg env m w) = trace w @ es \<and> Finish \<notin> set es"
    using gf(4) hf(4) tf(2) unfolding r by force
  show "k \<noteq> ''user'' \<Longrightarrow> k \<noteq> ''trainee'' \<Longrightarrow> k \<noteq> ''course'' \<Longrightarrow>
           get_prop (heap (resolve_course cfg env m w) m) k = get_prop (heap w m) k"
    using hf(5) [of k] tf(3) [of k] by (simp add: r gf)
qed

lemma resolve_course_creates:
  assumes "get_prop (heap w m) ''timestamp'' = JStr ts"
  shows "\<exists>d. creates (trace (resolve_course cfg env m w)) = creates (trace w) @ [d] \<and>
           es_body d = heap (resolve_course cfg env m w) m \<and>
           es_index d = elastic_indexprefix cfg @ takeWhile (\<lambda>c. c \<noteq> CHR ''T'') ts"
proof -
  obtain p w1 where g: "getDetails cfg env ''course'' (get_prop (heap w m) ''course_id'') w = (p, w1)"
    by (cases "getDetails cfg env ''course'' (get_prop (heap w m) ''course_id'') w")
  define w2 where "w2 = (case p of
                   Resolved result \<Rightarrow> if truthy result then assign m ''course'' result w1 else w1
                 | Rejected err \<Rightarrow> emit (Log err) w1)"
  note gf = getDetails_frame [OF g]
  note hf = handlers_frame [OF w2_def]
  have r: "resolve_course cfg env m w = resolve_trainee cfg env m w2"
    by (simp add: resolve_course_def g w2_def [symmetric])
  have ts2: "get_prop (heap w2 m) ''timestamp'' = JStr ts"
    using hf(5) [of "''timestamp''"] gf(1) assms by simp
  from resolve_trainee_creates [OF ts2, of cfg env] show ?thesis
    by (simp add: r hf gf)
qed

text \<open>The world after the handlers of the attempt stage.\<close>

lemma attempt_handlers_frame:
  assumes "w2 = (case p of
                  Resolved result \<Rightarrow>
                    if truthy result then
                      (let wa = assign m ''attempt'' result w;
                           wb = assign m ''course_id''
                                  (get_prop (get_prop (heap wa m) ''attempt'') ''course_id'') wa
                       in assign m ''trainee_id''
                            (get_prop (get_prop (heap wb m) ''attempt'') ''trainee_id'') wb)
                    else w
                | Rejected err \<Rightarrow> emit (Log err) w)"
  shows "calls (trace w2) = calls (trace w)"
    and "creates (trace w2) = creates (trace w)"
    and "requests (trace w2) = requests (trace w)"
    and "\<exists>es. trace w2 = trace w @ es \<and> Finish \<notin> set es"
    and "k \<noteq> ''attempt'' \<Longrightarrow> k \<noteq> ''course_id'' \<Longrightarrow> k \<noteq> ''trainee_id'' \<Longrightarrow>
           get_prop (heap w2 m) k = get_prop (heap w m) k"
    and "p = Resolved JNull \<or> (\<exists>e. p = Rejected e) \<Longrightarrow> heap w2 = heap w"
    and "p = Resolved result \<Longrightarrow> truthy result \<Longrightarrow> heap w m = JObj kvs \<Longrightarrow>
           heap w2 m = set_prop (set_prop (set_prop (JObj kvs) ''attempt'' result)
                          ''course_id'' (get_prop result ''course_id''))
                          ''trainee_id'' (get_prop result ''trainee_id'')"
  using assms
  by (auto simp add: get_prop_set_prop_other Let_def update_conv' split: promise.splits)

lemma resolve_attempt_frame:
  shows "map fst (calls (trace (resolve_attempt cfg env m p w))) =
           map fst (calls (trace w)) @ [''course'', ''trainee'', ''user'']"
    and "\<exists>es. trace (resolve_attempt cfg env m p w) = trace w @ es \<and> Finish \<notin> set es"
proof -
  define w2 where "w2 = (case p of
                  Resolved result \<Rightarrow>
                    if truthy result then
                      (let wa = assign m ''attempt'' result w;
                           wb = assign m ''course_id''
                                  (get_prop (get_prop (heap wa m) ''attempt'') ''course_id'') wa
                       in assign m ''trainee_id''
                            (get_prop (get_prop (heap wb m) ''attempt'') ''trainee_id'') wb)
                    else w
                | Rejected err \<Rightarrow> emit (Log err) w)"
  note af = attempt_handlers_frame [OF w2_def]
  note cf = resolve_course_frame [where cfg = cfg and env = env and m = m and w = w2]
  have r: "resolve_attempt cfg env m p w = resolve_course cfg env m w2"
    by (simp add: resolve_attempt_def w2_def)
  show "map fst (calls (trace (resolve_attempt cfg env m p w))) =
           map fst (calls (trace w)) @ [''course'', ''trainee'', ''user'']"
    by (simp add: r cf(1) af)
  show "\<exists>es. trace (resolve_attempt cfg env m p w) = trace w @ es \<and> Finish \<notin> set es"
    using af(4) cf(2) unfolding r by force
qed

lemma resolve_attempt_creates:
  assumes "get_prop (heap w m) ''timestamp'' = JStr ts"
  shows "\<exists>d. creates (trace (resolve_attempt cfg env m p w)) = creates (trace w) @ [d] \<and>
           es_body d = heap (resolve_attempt cfg env m p w) m \<and>
           es_index d = elastic_indexprefix cfg @ takeWhile (\<lambda>c. c \<noteq> CHR ''T'') ts"
proof -
  define w2 where "w2 = (case p of
                  Resolved result \<Rightarrow>
                    if truthy result then
                      (let wa = assign m ''attempt'' result w;
                           wb = assign m ''course_id''
                                  (get_prop (get_prop (heap wa m) ''attempt'') ''course_id'') wa
                       in assign m ''trainee_id''
                            (get_prop (get_prop (heap wb m) ''attempt'') ''trainee_id'') wb)
                    else w
                | Rejected err \<Rightarrow> emit (Log err) w)"
  note af = attempt_handlers_frame [OF w2_def]
  have r: "resolve_attempt cfg env m p w = resolve_course cfg env m w2"
    by (simp add: resolve_attempt_def w2_def)
  have ts2: "get_prop (heap w2 m) ''timestamp'' = JStr ts"
    using af(5) [of "''timestamp''"] assms by simp
  from resolve_course_creates [OF ts2, of cfg env] show ?thesis
    by (simp add: r af)
qed

lemma resolve_attempt_record:
  assumes "heap w m = JObj kvs" and "truthy result"
  shows "calls (trace (resolve_attempt cfg env m (Resolved result) w)) =
           calls (trace w) @ [(''course'', get_prop result ''course_id''),
                              (''trainee'', get_prop result ''trainee_id''),
                              (''user'', get_prop (JObj kvs) ''user_id'')]"
    and "get_prop (heap (resolve_attempt cfg env m (Resolved result) w) m) ''attempt'' = result"
    and "get_prop (heap (resolve_attempt cfg env m (Resolved result) w) m) ''course_id'' =
           get_prop result ''course_id''"
    and "get_prop (heap (resolve_attempt cfg env m (Resolved result) w) m) ''trainee_id'' =
           get_prop result ''trainee_id''"
proof -
  define w2 where "w2 = (case Resolved result of
                  Resolved result \<Rightarrow>
                    if truthy result then
                      (let wa = assign m ''attempt'' result w;
                           wb = assign m ''course_id''
                                  (get_prop (get_prop (heap wa m) ''attempt'') ''course_id'') wa
                       in assign m ''trainee_id''
                            (get_prop (get_prop (heap wb m) ''attempt'') ''trainee_id'') wb)
                    else w
                | Rejected err \<Rightarrow> emit (Log err) w)"
  note af = attempt_handlers_frame [OF w2_def]
  note cf = resolve_course_frame [where cfg = cfg and env = env and m = m and w = w2]
  have r: "resolve_attempt cfg env m (Resolved result) w = resolve_course cfg env m w2"
    by (simp add: resolve_attempt_def w2_def)
  have h2: "heap w2 m = set_prop (set_prop (set_prop (JObj kvs) ''attempt'' result)
                          ''course_id'' (get_prop result ''course_id''))
                          ''trainee_id'' (get_prop result ''trainee_id'')"
    using af(7) [OF refl assms(2) assms(1)] .
  have g2: "get_prop (heap w2 m) ''attempt'' = result"
    "get_prop (heap w2 m) ''course_id'' = get_prop result ''course_id''"
    "get_prop (heap w2 m) ''trainee_id'' = get_prop result ''trainee_id''"
    "get_prop (heap w2 m) ''user_id'' = get_prop (JObj kvs) ''user_id''"
    unfolding h2 by (simp_all add: update_conv')
  show "calls (trace (resolve_attempt cfg env m (Resolved result) w)) =
           calls (trace w) @ [(''course'', get_prop result ''course_id''),
                              (''trainee'', get_prop result ''trainee_id''),
                              (''user'', get_prop (JObj kvs) ''user_id'')]"
    by (simp add: r cf(1) af(1) g2)
  show "get_prop (heap (resolve_attempt cfg env m (Resolved result) w) m) ''attempt'' = result"
    using cf(3) [of "''attempt''"] g2 by (simp add: r)
  show "get_prop (heap (resolve_attempt cfg env m (Resolved result) w) m) ''course_id'' =
           get_prop result ''course_id''"
    using cf(3) [of "''course_id''"] g2 by (simp add: r)
  show "get_prop (heap (resolve_attempt cfg env m (Resolved result) w) m) ''trainee_id'' =
           get_prop result ''trainee_id''"
    using cf(3) [of "''trainee_id''"] g2 by (simp add: r)
qed

text \<open>A stage whose id is missing goes on to the next stage at once.\<close>

lemma resolve_trainee_no_id:
  assumes "\<not> truthy (get_prop (heap w m) ''trainee_id'')"
  shows "resolve_trainee cfg env m w =
           resolve_user cfg env m (emit (Call ''trainee'' (get_prop (heap w m) ''trainee_id'')) w)"
  using assms by (simp add: resolve_trainee_def getDetails_def)

lemma resolve_course_no_id:
  assumes "\<not> truthy (get_prop (heap w m) ''course_id'')"
  shows "resolve_course cfg env m w =
           resolve_trainee cfg env m (emit (Call ''course'' (get_prop (heap w m) ''course_id'')) w)"
  using assms by (simp add: resolve_course_def getDetails_def)

lemma resolve_attempt_no_record:
  "resolve_attempt cfg env m (Resolved JNull) w = resolve_course cfg env m w"
  "resolve_attempt cfg env m (Rejected e) w = resolve_course cfg env m (emit (Log e) w)"
  by (simp_all add: resolve_attempt_def)

lemma hydrateAndIndex_object:
  assumes "heap w msg \<noteq> JNull" and "heap w msg \<noteq> JUndefined"
    and "getDetails cfg env ''attempt'' (get_prop (heap w msg) ''attempt_id'') w = (p, w1)"
  shows "hydrateAndIndex cfg env msg w = Inr (w1, resolve_attempt cfg env msg p)"
  using assms by (simp add: hydrateAndIndex_def)

lemma isIndexableMessage_object:
  assumes "fst (isIndexableMessage cfg env msg w)"
  shows "heap w msg \<noteq> JNull" and "heap w msg \<noteq> JUndefined"
  using assms by (auto simp add: isIndexableMessage_def split: if_splits)

lemma isIndexableMessage_timestamp:
  assumes "msg_schema cfg = default_schema" and "fst (isIndexableMessage cfg env msg w)"
  shows "\<exists>ts. get_prop (heap w msg) ''timestamp'' = JStr ts"
proof -
  from assms have v: "validate (FORMAT_REGEXPS env) (heap w msg) default_schema"
    and u: "heap w msg \<noteq> JUndefined"
    by (auto simp add: isIndexableMessage_def split: if_splits)
  from v show ?thesis
    unfolding validate_default [OF u] by auto
qed

section \<open>Enrichment Orchestrator: the stages\<close>

text \<open>
  C3. For a message that passes validation against the schema of the default
  configuration (whatever the rest of the configuration), and whatever
  the remote service answers to each of the lookups (a record, nothing, an error status,
  a transport error), \<^verbatim>\<open>hydrateAndIndex\<close> enters \<^verbatim>\<open>getDetails\<close> for the attempt before
  it returns, and the chain it leaves behind enters \<^verbatim>\<open>getDetails\<close> for the course, the
  trainee and the user, in this order, and then writes to the store exactly once: no
  stage keeps another one from being attempted, nor the write from happening.
\<close>

theorem hydrateAndIndex_all_stages:
  assumes "msg_schema cfg = default_schema" and "fst (isIndexableMessage cfg env msg w)"
  shows "\<exists>w1 k. hydrateAndIndex cfg env msg w = Inr (w1, k) \<and>
           heap w1 = heap w \<and>
           map fst (calls (trace w1)) = map fst (calls (trace w)) @ [''attempt''] \<and>
           creates (trace w1) = creates (trace w) \<and>
           (\<forall>w2. heap w2 msg = heap w msg \<longrightarrow>
              map fst (calls (trace (k w2))) =
                map fst (calls (trace w2)) @ [''course'', ''trainee'', ''user''] \<and>
              length (creates (trace (k w2))) = Suc (length (creates (trace w2))))"
proof -
  obtain p w1 where
    g: "getDetails cfg env ''attempt'' (get_prop (heap w msg) ''attempt_id'') w = (p, w1)"
    by (cases "getDetails cfg env ''attempt'' (get_prop (heap w msg) ''attempt_id'') w")
  note gf = getDetails_frame [OF g]
  from isIndexableMessage_timestamp [OF assms] obtain ts
    where ts: "get_prop (heap w msg) ''timestamp'' = JStr ts" ..
  have h: "hydrateAndIndex cfg env msg w = Inr (w1, resolve_attempt cfg env msg p)"
    using isIndexableMessage_object [OF assms(2)] g by (rule hydrateAndIndex_object)
  have later: "map fst (calls (trace (resolve_attempt cfg env msg p w2))) =
                map fst (calls (trace w2)) @ [''course'', ''trainee'', ''user''] \<and>
              length (creates (trace (resolve_attempt cfg env msg p w2))) =
                Suc (length (creates (trace w2)))"
    if "heap w2 msg = heap w msg" for w2
  proof -
    from that ts have "get_prop (heap w2 msg) ''timestamp'' = JStr ts" by simp
    from resolve_attempt_creates [OF this, of cfg env p]
    obtain d where "creates (trace (resolve_attempt cfg env msg p w2)) = creates (trace w2) @ [d]"
      by blast
    then show ?thesis
      by (simp add: resolve_attempt_frame(1))
  qed
  show ?thesis
    using h gf(1) gf(2) gf(3) later by simp
qed

text \<open>
  C4. For a message whose attempt lookup resolves to a record, the stages run in the
  order attempt, course, trainee, user; the ids handed to the course and the trainee
  lookups are the \<^verbatim>\<open>course_id\<close> and the \<^verbatim>\<open>trainee_id\<close> of the attempt record, the id
  handed to the user lookup is the \<^verbatim>\<open>user_id\<close> of the message, and at the end of the
  chain the message holds the record as \<^verbatim>\<open>attempt\<close> and the two ids of the record as
  its own \<^verbatim>\<open>course_id\<close> and \<^verbatim>\<open>trainee_id\<close>.
\<close>

theorem attempt_ids_feed_stages:
  assumes "heap w msg = JObj kvs"
    and "fst (getDetails cfg env ''attempt'' (get_prop (JObj kvs) ''attempt_id'') w) = Resolved result"
    and "truthy result"
  shows "\<exists>w1 k. hydrateAndIndex cfg env msg w = Inr (w1, k) \<and>
           heap w1 = heap w \<and>
           calls (trace w1) = calls (trace w) @ [(''attempt'', get_prop (JObj kvs) ''attempt_id'')] \<and>
           (\<forall>w2. heap w2 msg = JObj kvs \<longrightarrow>
              calls (trace (k w2)) =
                calls (trace w2) @ [(''course'', get_prop result ''course_id''),
                                    (''trainee'', get_prop result ''trainee_id''),
                                    (''user'', get_prop (JObj kvs) ''user_id'')] \<and>
              get_prop (heap (k w2) msg) ''attempt'' = result \<and>
              get_prop (heap (k w2) msg) ''course_id'' = get_prop result ''course_id'' \<and>
              get_prop (heap (k w2) msg) ''trainee_id'' = get_prop result ''trainee_id'')"
proof -
  obtain w1 where
    g: "getDetails cfg env ''attempt'' (get_prop (heap w msg) ''attempt_id'') w = (Resolved result, w1)"
    using assms(1,2)
    by (cases "getDetails cfg env ''attempt'' (get_prop (heap w msg) ''attempt_id'') w") simp
  note gf = getDetails_frame [OF g]
  have h: "hydrateAndIndex cfg env msg w = Inr (w1, resolve_attempt cfg env msg (Resolved result))"
    using g assms(1) by (simp add: hydrateAndIndex_object)
  show ?thesis
    using h gf(1) gf(2) assms(1)
      resolve_attempt_record [where cfg = cfg and env = env and m = msg and kvs = kvs, OF _ assms(3)]
    by simp
qed

text \<open>
  C10. For a message (a keyed record with a string timestamp) that came without
  \<^verbatim>\<open>course_id\<close> and \<^verbatim>\<open>trainee_id\<close> and whose attempt stage yields no record (it
  resolves to \<^verbatim>\<open>null\<close>, as it does for an absent \<^verbatim>\<open>attempt_id\<close> or an attempt not
  found, or it is rejected), the course and the trainee stages are entered with
  \<^verbatim>\<open>undefined\<close> and issue no request: the only request the chain can issue is the one
  for the user. The message is then written to the store once, as it came or with
  \<^verbatim>\<open>user\<close> attached, and with nothing else attached.
\<close>

theorem no_attempt_no_course_no_trainee:
  assumes "heap w msg = JObj kvs"
    and "get_prop (JObj kvs) ''timestamp'' = JStr ts"
    and "get_prop (JObj kvs) ''course_id'' = JUndefined"
    and "get_prop (JObj kvs) ''trainee_id'' = JUndefined"
    and "fst (getDetails cfg env ''attempt'' (get_prop (JObj kvs) ''attempt_id'') w) = Resolved JNull
         \<or> (\<exists>e. fst (getDetails cfg env ''attempt'' (get_prop (JObj kvs) ''attempt_id'') w) = Rejected e)"
  shows "\<exists>w1 k. hydrateAndIndex cfg env msg w = Inr (w1, k) \<and>
           heap w1 = heap w \<and>
           calls (trace w1) = calls (trace w) @ [(''attempt'', get_prop (JObj kvs) ''attempt_id'')] \<and>
           creates (trace w1) = creates (trace w) \<and>
           (\<forall>w2. heap w2 msg = JObj kvs \<longrightarrow>
              (\<exists>rs d. requests (trace (k w2)) = requests (trace w2) @ rs \<and>
                 length rs \<le> 1 \<and>
                 (\<forall>q \<in> set rs. json_params_id q = get_prop (JObj kvs) ''user_id'' \<and>
                    json_method q = map_of (brainspark_method cfg) ''user'') \<and>
                 calls (trace (k w2)) =
                   calls (trace w2) @ [(''course'', JUndefined), (''trainee'', JUndefined),
                                       (''user'', get_prop (JObj kvs) ''user_id'')] \<and>
                 creates (trace (k w2)) = creates (trace w2) @ [d] \<and>
                 es_body d = heap (k w2) msg \<and>
                 (heap (k w2) msg = JObj kvs \<or>
                  (\<exists>u. truthy u \<and> heap (k w2) msg = set_prop (JObj kvs) ''user'' u))))"
proof -
  obtain p w1 where
    g: "getDetails cfg env ''attempt'' (get_prop (heap w msg) ''attempt_id'') w = (p, w1)"
    by (cases "getDetails cfg env ''attempt'' (get_prop (heap w msg) ''attempt_id'') w")
  note gf = getDetails_frame [OF g]
  from g assms(1,5) have p: "p = Resolved JNull \<or> (\<exists>e. p = Rejected e)"
    by simp
  have h: "hydrateAndIndex cfg env msg w = Inr (w1, resolve_attempt cfg env msg p)"
    using g assms(1) by (simp add: hydrateAndIndex_object)
  have later: "\<exists>rs d. requests (trace (resolve_attempt cfg env msg p w2)) = requests (trace w2) @ rs \<and>
                 length rs \<le> 1 \<and>
                 (\<forall>q \<in> set rs. json_params_id q = get_prop (JObj kvs) ''user_id'' \<and>
                    json_method q = map_of (brainspark_method cfg) ''user'') \<and>
                 calls (trace (resolve_attempt cfg env msg p w2)) =
                   calls (trace w2) @ [(''course'', JUndefined), (''trainee'', JUndefined),
                                       (''user'', get_prop (JObj kvs) ''user_id'')] \<and>
                 creates (trace (resolve_attempt cfg env msg p w2)) = creates (trace w2) @ [d] \<and>
                 es_body d = heap (resolve_attempt cfg env msg p w2) msg \<and>
                 (heap (resolve_attempt cfg env msg p w2) msg = JObj kvs \<or>
                  (\<exists>u. truthy u \<and> heap (resolve_attempt cfg env msg p w2) msg = set_prop (JObj kvs) ''user'' u))"
    if w2: "heap w2 msg = JObj kvs" for w2
  proof -
    define wa where "wa = (case p of Resolved v \<Rightarrow> w2 | Rejected e \<Rightarrow> emit (Log e) w2)"
    define wb where "wb = emit (Call ''course'' JUndefined) wa"
    define wc where "wc = emit (Call ''trainee'' JUndefined) wb"
    have ha: "heap wa = heap w2" "calls (trace wa) = calls (trace w2)"
      "creates (trace wa) = creates (trace w2)" "requests (trace wa) = requests (trace w2)"
      by (simp_all add: wa_def split: promise.splits)
    have r1: "resolve_attempt cfg env msg p w2 = resolve_course cfg env msg wa"
      using p by (auto simp add: wa_def resolve_attempt_no_record)
    have r2: "resolve_course cfg env msg wa = resolve_trainee cfg env msg wb"
      using resolve_course_no_id [of wa msg cfg env] assms(3) w2 by (simp add: ha wb_def)
    have r3: "resolve_trainee cfg env msg wb = resolve_user cfg env msg wc"
      using resolve_trainee_no_id [of wb msg cfg env] assms(4) w2 by (simp add: ha wb_def wc_def)
    have r: "resolve_attempt cfg env msg p w2 = resolve_user cfg env msg wc"
      by (simp add: r1 r2 r3)
    have hc: "heap wc = heap w2" "calls (trace wc) = calls (trace w2) @ [(''course'', JUndefined), (''trainee'', JUndefined)]"
      "creates (trace wc) = creates (trace w2)" "requests (trace wc) = requests (trace w2)"
      by (simp_all add: wc_def wb_def ha)
    have tsc: "get_prop (heap wc msg) ''timestamp'' = JStr ts"
      using assms(2) w2 by (simp add: hc)
    note uf = resolve_user_frame [where cfg = cfg and env = env and m = msg and w = wc]
    from resolve_user_creates [OF tsc, of cfg env]
    obtain d where d: "creates (trace (resolve_user cfg env msg wc)) = creates (trace wc) @ [d]"
      "es_body d = heap (resolve_user cfg env msg wc) msg"
      by blast
    from uf(3) obtain rs where rs: "requests (trace (resolve_user cfg env msg wc)) = requests (trace wc) @ rs"
      "length rs \<le> 1"
      "\<forall>q \<in> set rs. json_params_id q = get_prop (heap wc msg) ''user_id'' \<and>
              json_method q = map_of (brainspark_method cfg) ''user''"
      by blast
    show ?thesis
      unfolding r
      apply (rule exI [of _ rs], rule exI [of _ d])
      using d rs uf(1) uf(5) w2 by (simp add: hc)
  qed
  show ?thesis
    using h gf(1) gf(2) gf(3) later assms(1) by simp
qed

section \<open>Stream Pump: the gate and the acknowledgement\<close>

lemma isIndexableMessage_snd: "snd (isIndexableMessage cfg env msg w) = w"
  by (simp add: isIndexableMessage_def)

text \<open>
  C8. When \<^verbatim>\<open>isIndexableMessage\<close> returns false, \<^verbatim>\<open>transformMessage\<close> returns the world
  it was given and leaves nothing behind: no lookup, no store write. This is the case
  for the test message with an eighth key \<^verbatim>\<open>bad_key\<close> and for the test message with the
  type \<^verbatim>\<open>FOO\<close>. When \<^verbatim>\<open>isIndexableMessage\<close> returns true, \<^verbatim>\<open>transformMessage\<close> is
  \<^verbatim>\<open>hydrateAndIndex\<close>, which enters the attempt stage before it returns.
\<close>

theorem transformMessage_gate:
  "(\<not> fst (isIndexableMessage cfg env msg w) \<longrightarrow>
      transformMessage cfg env msg w = Inr (w, (\<lambda>w'. w'))) \<and>
   (fst (isIndexableMessage cfg env msg w) \<longrightarrow>
      transformMessage cfg env msg w = hydrateAndIndex cfg env msg w \<and>
      (\<exists>w1 k. hydrateAndIndex cfg env msg w = Inr (w1, k) \<and>
         calls (trace w1) = calls (trace w) @ [(''attempt'', get_prop (heap w msg) ''attempt_id'')])) \<and>
   (heap w msg = set_prop test_data ''bad_key'' (JStr ''Bad'') \<longrightarrow>
      transformMessage default_config env msg w = Inr (w, (\<lambda>w'. w'))) \<and>
   (heap w msg = set_prop test_data ''type'' (JStr ''FOO'') \<longrightarrow>
      transformMessage default_config env msg w = Inr (w, (\<lambda>w'. w')))"
proof (intro conjI impI)
  assume "\<not> fst (isIndexableMessage cfg env msg w)"
  then show "transformMessage cfg env msg w = Inr (w, (\<lambda>w'. w'))"
    using isIndexableMessage_snd [of cfg env msg w]
    by (simp add: transformMessage_def split_beta)
next
  assume a: "fst (isIndexableMessage cfg env msg w)"
  then show "transformMessage cfg env msg w = hydrateAndIndex cfg env msg w"
    using isIndexableMessage_snd [of cfg env msg w]
    by (simp add: transformMessage_def split_beta)
  obtain p w1 where
    g: "getDetails cfg env ''attempt'' (get_prop (heap w msg) ''attempt_id'') w = (p, w1)"
    by (cases "getDetails cfg env ''attempt'' (get_prop (heap w msg) ''attempt_id'') w")
  have "hydrateAndIndex cfg env msg w = Inr (w1, resolve_attempt cfg env msg p)"
    using isIndexableMessage_object [OF a] g by (rule hydrateAndIndex_object)
  then show "\<exists>w1 k. hydrateAndIndex cfg env msg w = Inr (w1, k) \<and>
         calls (trace w1) = calls (trace w) @ [(''attempt'', get_prop (heap w msg) ''attempt_id'')]"
    using getDetails_frame(2) [OF g] by simp
next
  assume "heap w msg = set_prop test_data ''bad_key'' (JStr ''Bad'')"
  then have "isIndexableMessage default_config env msg w = (False, w)"
    by (simp add: isIndexableMessage_def test_data_def default_config_def)
  then show "transformMessage default_config env msg w = Inr (w, (\<lambda>w'. w'))"
    by (simp add: transformMessage_def)
next
  assume "heap w msg = set_prop test_data ''type'' (JStr ''FOO'')"
  then have "isIndexableMessage default_config env msg w = (False, w)"
    by (simp add: isIndexableMessage_def test_data_def)
  then show "transformMessage default_config env msg w = Inr (w, (\<lambda>w'. w'))"
    by (simp add: transformMessage_def)
qed

lemma transformMessage_trace:
  assumes "heap w msg \<noteq> JUndefined"
  shows "\<exists>w1 k es. transformMessage cfg env msg w = Inr (w1, k) \<and>
           trace w1 = trace w @ es \<and> Finish \<notin> set es \<and>
           (\<forall>w2. \<exists>es2. trace (k w2) = trace w2 @ es2 \<and> Finish \<notin> set es2)"
proof (cases "fst (isIndexableMessage cfg env msg w)")
  case False
  then have "transformMessage cfg env msg w = Inr (w, (\<lambda>w'. w'))"
    using isIndexableMessage_snd [of cfg env msg w]
    by (simp add: transformMessage_def split_beta)
  then show ?thesis by simp
next
  case True
  then have t: "transformMessage cfg env msg w = hydrateAndIndex cfg env msg w"
    using isIndexableMessage_snd [of cfg env msg w]
    by (simp add: transformMessage_def split_beta)
  obtain p w1 where
    g: "getDetails cfg env ''attempt'' (get_prop (heap w msg) ''attempt_id'') w = (p, w1)"
    by (cases "getDetails cfg env ''attempt'' (get_prop (heap w msg) ''attempt_id'') w")
  have h: "hydrateAndIndex cfg env msg w = Inr (w1, resolve_attempt cfg env msg p)"
    using isIndexableMessage_object [OF True] g by (rule hydrateAndIndex_object)
  from getDetails_frame(4) [OF g] obtain es where "trace w1 = trace w @ es" "Finish \<notin> set es"
    by blast
  then show ?thesis
    using resolve_attempt_frame(2) [of cfg env msg p] by (simp add: t h)
qed

text \<open>
  C1, amended. For every payload that \<^verbatim>\<open>JSON.parse\<close> decodes, to a keyed record or to
  any other value, the handler returns normally and has called \<^verbatim>\<open>finish\<close> exactly once,
  as its last act, whatever the verdict of the validator and whatever the lookups and
  the store answer; nothing that runs later for this message calls \<^verbatim>\<open>finish\<close> again.
  For a payload that \<^verbatim>\<open>JSON.parse\<close> rejects, the \<^verbatim>\<open>SyntaxError\<close> leaves the handler
  before \<^verbatim>\<open>finish\<close>: the world is unchanged and the message is not acknowledged.
\<close>

theorem on_message_acknowledges:
  "(\<forall>v. JSON_parse env payload = Some v \<longrightarrow>
      (\<exists>w1 k es. on_message cfg env payload w = (None, w1, k) \<and>
         trace w1 = trace w @ es @ [Finish] \<and> Finish \<notin> set es \<and>
         (\<forall>w2. \<exists>es2. trace (k w2) = trace w2 @ es2 \<and> Finish \<notin> set es2))) \<and>
   (JSON_parse env payload = None \<longrightarrow>
      on_message cfg env payload w = (Some SyntaxError, w, (\<lambda>w'. w')))"
proof (intro conjI impI allI)
  fix v
  assume v: "JSON_parse env payload = Some v"
  define r where "r = fst (alloc v w)"
  define wr where "wr = snd (alloc v w)"
  have a: "alloc v w = (r, wr)" by (simp add: r_def wr_def)
  have tr: "trace wr = trace w" by (simp add: wr_def alloc_def)
  show "\<exists>w1 k es. on_message cfg env payload w = (None, w1, k) \<and>
         trace w1 = trace w @ es @ [Finish] \<and> Finish \<notin> set es \<and>
         (\<forall>w2. \<exists>es2. trace (k w2) = trace w2 @ es2 \<and> Finish \<notin> set es2)"
  proof (cases "heap wr r = JUndefined")
    case True
    then have "transformMessage cfg env r wr = Inr (wr, (\<lambda>w'. w'))"
      by (simp add: transformMessage_def isIndexableMessage_def)
    then show ?thesis
      by (simp add: on_message_def v a tr)
  next
    case False
    from transformMessage_trace [OF False, of cfg env]
    obtain w1 k es where "transformMessage cfg env r wr = Inr (w1, k)"
      "trace w1 = trace wr @ es" "Finish \<notin> set es"
      "\<forall>w2. \<exists>es2. trace (k w2) = trace w2 @ es2 \<and> Finish \<notin> set es2"
      by blast
    then show ?thesis
      by (simp add: on_message_def v a tr)
  qed
next
  assume "JSON_parse env payload = None"
  then show "on_message cfg env payload w = (Some SyntaxError, w, (\<lambda>w'. w'))"
    by (simp add: on_message_def)
qed

section \<open>The theorems at the example data\<close>

lemma test_world_simps:
  "heap test_world 0 = test_data" "trace test_world = []"
  by (simp_all add: test_world_def alloc_def world0_def)

lemma test_data_indexable:
  "fst (isIndexableMessage default_config example_env 0 test_world)"
  by (simp add: isIndexableMessage_def test_world_simps test_data_def default_config_def
      default_schema_def validate_def test_type_def isFormat_def example_env_def
      example_date_time_def)

theorem isIndexableMessage_iff_witness:
  "FORMAT_REGEXPS example_env ''date-time'' = Some example_date_time \<and>
   fst (isIndexableMessage default_config example_env 0 test_world)"
proof -
  have h: "FORMAT_REGEXPS example_env ''date-time'' = Some example_date_time"
    by (simp add: example_env_def)
  define kvs where "kvs =
          [(''id'', JStr ''5c92de28-14f0-449e-821b-e61e871179c2''),
           (''attempt_id'', JStr ''e70a6ecf-f308-4306-831d-bb41c851061d''),
           (''progress'', JNum 0.63414633),
           (''score'', JNum 0.96158886),
           (''timestamp'', JStr ''2018-01-16T14:09:51.655185082-07:00''),
           (''type'', JStr ''PROGRESS''),
           (''user_id'', JStr ''471de972-520c-4f44-bd6d-34cc98dd5e6e'')]"
  have hk: "heap test_world 0 = JObj kvs"
    by (simp add: test_world_simps test_data_def kvs_def)
  have f: "length (remdups (map fst kvs)) \<le> 7"
    "map_of kvs ''id'' = Some (JStr ''5c92de28-14f0-449e-821b-e61e871179c2'')"
    "map_of kvs ''attempt_id'' = Some (JStr ''e70a6ecf-f308-4306-831d-bb41c851061d'')"
    "map_of kvs ''user_id'' = Some (JStr ''471de972-520c-4f44-bd6d-34cc98dd5e6e'')"
    "map_of kvs ''type'' = Some (JStr ''PROGRESS'')"
    "''PROGRESS'' \<noteq> ''FOO''"
    "map_of kvs ''progress'' = Some (JNum 0.63414633)"
    "map_of kvs ''score'' = Some (JNum 0.96158886)"
    "map_of kvs ''timestamp'' = Some (JStr ''2018-01-16T14:09:51.655185082-07:00'')"
    "example_date_time ''2018-01-16T14:09:51.655185082-07:00''"
    by (simp_all add: kvs_def example_date_time_def)
  have "fst (isIndexableMessage default_config example_env 0 test_world)"
    unfolding isIndexableMessage_iff [OF h, of 0 test_world]
    using hk f by blast
  with h show ?thesis by simp
qed

theorem isIndexableMessage_pure_witness:
  "heap test_world 0 = heap test_world 0 \<and>
   FORMAT_REGEXPS down_env = FORMAT_REGEXPS example_env \<and>
   snd (isIndexableMessage default_config example_env 0 test_world) = test_world \<and>
   fst (isIndexableMessage default_config down_env 0 test_world) =
     fst (isIndexableMessage default_config example_env 0 test_world)"
proof -
  have h: "heap test_world 0 = heap test_world 0 \<and>
           FORMAT_REGEXPS down_env = FORMAT_REGEXPS example_env"
    by (simp add: down_env_def)
  show ?thesis
    using h isIndexableMessage_pure [of default_config example_env 0 test_world test_world 0 down_env]
    by simp
qed

theorem getDetails_no_id_witness:
  "\<not> truthy (JStr '''') \<and> \<not> truthy JUndefined \<and>
   fst (getDetails default_config example_env ''trainee'' (JStr '''') world0) = Resolved JNull \<and>
   requests (trace (snd (getDetails default_config example_env ''trainee'' (JStr '''') world0))) = [] \<and>
   fst (getDetails default_config example_env ''trainee'' JUndefined world0) = Resolved JNull \<and>
   requests (trace (snd (getDetails default_config example_env ''trainee'' JUndefined world0))) = []"
proof -
  have h1: "\<not> truthy (JStr '''')" and h2: "\<not> truthy JUndefined"
    by simp_all
  have t: "requests (trace world0) = []"
    by (simp add: world0_def)
  show ?thesis
    using getDetails_no_id [OF h1, of default_config example_env "''trainee''" world0]
      getDetails_no_id [OF h2, of default_config example_env "''trainee''" world0]
    by (simp add: t)
qed

theorem indexToElastic_partition_witness:
  "get_prop (heap (snd (alloc (set_prop test_data ''timestamp'' (JStr ''2018-01-16T14:09:51.655Z'')) world0)) 0)
     ''timestamp'' = JStr ''2018-01-16T14:09:51.655Z'' \<and>
   elastic_indexprefix default_config = ''events-'' \<and>
   (\<exists>w' d. indexToElastic default_config example_env 0
              (snd (alloc (set_prop test_data ''timestamp'' (JStr ''2018-01-16T14:09:51.655Z'')) world0)) = Inr w' \<and>
      creates (trace w') = [d] \<and> es_index d = ''events-2018-01-16'')"
proof -
  define w where "w = snd (alloc (set_prop test_data ''timestamp'' (JStr ''2018-01-16T14:09:51.655Z'')) world0)"
  have h: "get_prop (heap w 0) ''timestamp'' = JStr ''2018-01-16T14:09:51.655Z'' \<and>
           elastic_indexprefix default_config = ''events-''"
    by (simp add: w_def alloc_def world0_def test_data_def default_config_def)
  have t: "creates (trace w) = []"
    by (simp add: w_def alloc_def world0_def)
  show ?thesis
    using h t indexToElastic_partition [of w 0 "''2018-01-16T14:09:51.655Z''" default_config example_env]
    unfolding w_def [symmetric] by simp
qed

theorem hydrateAndIndex_all_stages_witness:
  "msg_schema default_config = default_schema \<and>
   fst (isIndexableMessage default_config example_env 0 test_world) \<and>
   (\<exists>w1 k. hydrateAndIndex default_config example_env 0 test_world = Inr (w1, k) \<and>
      map fst (calls (trace (k w1))) = [''attempt'', ''course'', ''trainee'', ''user''] \<and>
      length (creates (trace (k w1))) = 1)"
proof -
  have h1: "msg_schema default_config = default_schema"
    by (simp add: default_config_def)
  note h2 = test_data_indexable
  from hydrateAndIndex_all_stages [OF h1 h2]
  obtain w1 k where hk: "hydrateAndIndex default_config example_env 0 test_world = Inr (w1, k)"
    and hp: "heap w1 = heap test_world"
    and c1: "map fst (calls (trace w1)) = map fst (calls (trace test_world)) @ [''attempt'']"
    and r1: "creates (trace w1) = creates (trace test_world)"
    and later: "\<forall>w2. heap w2 0 = heap test_world 0 \<longrightarrow>
              map fst (calls (trace (k w2))) =
                map fst (calls (trace w2)) @ [''course'', ''trainee'', ''user''] \<and>
              length (creates (trace (k w2))) = Suc (length (creates (trace w2)))"
    by blast
  from later hp have "map fst (calls (trace (k w1))) =
                map fst (calls (trace w1)) @ [''course'', ''trainee'', ''user''] \<and>
              length (creates (trace (k w1))) = Suc (length (creates (trace w1)))"
    by simp
  then have "map fst (calls (trace (k w1))) = [''attempt'', ''course'', ''trainee'', ''user''] \<and>
      length (creates (trace (k w1))) = 1"
    by (simp add: c1 r1 test_world_simps)
  with h1 h2 hk show ?thesis by auto
qed

theorem getDetails_outcome_witness:
  "truthy (JStr ''c-1'') \<and>
   fst (getDetails default_config example_env ''course'' (JStr ''c-1'') world0) = Rejected (JNum 500)"
proof -
  have h: "truthy (JStr ''c-1'')" by simp
  from getDetails_outcome [OF h, of default_config example_env "''course''" world0]
  obtain q where jm: "json_method q = map_of (brainspark_method default_config) ''course''"
    and out: "let cb = request example_env (trace world0 @ [Call ''course'' (JStr ''c-1'')]) q;
          p = fst (getDetails default_config example_env ''course'' (JStr ''c-1'') world0);
          failed = (truthy (cb_error cb) \<or>
                    (\<exists>sc. cb_response cb = Some sc \<and> (sc < 200 \<or> 299 < sc)));
          result = get_prop (cb_body cb) ''result'';
          data = get_prop result ''data''
      in ((\<exists>e. p = Rejected e) \<longleftrightarrow> failed) \<and>
         (truthy (cb_error cb) \<longrightarrow> p = Rejected (cb_error cb)) \<and>
         (\<not> truthy (cb_error cb) \<longrightarrow>
            (\<forall>sc. cb_response cb = Some sc \<and> (sc < 200 \<or> 299 < sc) \<longrightarrow>
               p = Rejected (JNum (of_int sc)))) \<and>
         (\<not> failed \<and> (\<not> truthy (cb_body cb) \<or> \<not> truthy result \<or> \<not> truthy data) \<longrightarrow>
            p = Resolved JNull) \<and>
         (\<not> failed \<and> truthy (cb_body cb) \<and> truthy result \<and> truthy data \<longrightarrow>
            p = Resolved data)"
    by blast
  have m: "json_method q = Some ''Content.GetCourse''"
    by (simp add: jm default_config_def)
  have cb: "request example_env (trace world0 @ [Call ''course'' (JStr ''c-1'')]) q =
              \<lparr> cb_error = JNull, cb_response = Some 500, cb_body = JUndefined \<rparr>"
    by (simp add: example_env_def example_request_def m)
  from out have "fst (getDetails default_config example_env ''course'' (JStr ''c-1'') world0) =
                   Rejected (JNum (of_int 500))"
    unfolding Let_def cb by simp
  with h show ?thesis by simp
qed

theorem attempt_ids_feed_stages_witness:
  "heap test_world 0 = test_data \<and>
   fst (getDetails default_config example_env ''attempt'' (get_prop test_data ''attempt_id'') test_world) =
     Resolved attempt_record \<and>
   truthy attempt_record \<and>
   (\<exists>w1 k. hydrateAndIndex default_config example_env 0 test_world = Inr (w1, k) \<and>
      calls (trace (k w1)) =
        [(''attempt'', JStr ''e70a6ecf-f308-4306-831d-bb41c851061d''),
         (''course'', JStr ''c-1''),
         (''trainee'', JStr ''t-1''),
         (''user'', JStr ''471de972-520c-4f44-bd6d-34cc98dd5e6e'')] \<and>
      get_prop (heap (k w1) 0) ''attempt'' = attempt_record \<and>
      get_prop (heap (k w1) 0) ''course_id'' = JStr ''c-1'' \<and>
      get_prop (heap (k w1) 0) ''trainee_id'' = JStr ''t-1'')"
proof -
  define kvs where "kvs =
          [(''id'', JStr ''5c92de28-14f0-449e-821b-e61e871179c2''),
           (''attempt_id'', JStr ''e70a6ecf-f308-4306-831d-bb41c851061d''),
           (''progress'', JNum 0.63414633),
           (''score'', JNum 0.96158886),
           (''timestamp'', JStr ''2018-01-16T14:09:51.655185082-07:00''),
           (''type'', JStr ''PROGRESS''),
           (''user_id'', JStr ''471de972-520c-4f44-bd6d-34cc98dd5e6e'')]"
  have td: "test_data = JObj kvs"
    by (simp add: test_data_def kvs_def)
  have h1: "heap test_world 0 = JObj kvs"
    by (simp add: test_world_simps td)
  have ids: "get_prop (JObj kvs) ''attempt_id'' = JStr ''e70a6ecf-f308-4306-831d-bb41c851061d''"
    "get_prop (JObj kvs) ''user_id'' = JStr ''471de972-520c-4f44-bd6d-34cc98dd5e6e''"
    by (simp_all add: kvs_def)
  have h2: "fst (getDetails default_config example_env ''attempt'' (get_prop (JObj kvs) ''attempt_id'')
                  test_world) = Resolved attempt_record"
    unfolding ids
    by (simp add: getDetails_def Let_def split_beta default_config_def example_env_def
        example_request_def getDetails_callback_def attempt_record_def)
  have h3: "truthy attempt_record"
    by (simp add: attempt_record_def)
  have rec: "get_prop attempt_record ''course_id'' = JStr ''c-1''"
    "get_prop attempt_record ''trainee_id'' = JStr ''t-1''"
    by (simp_all add: attempt_record_def)
  from attempt_ids_feed_stages [OF h1 h2 h3]
  obtain w1 k where hk: "hydrateAndIndex default_config example_env 0 test_world = Inr (w1, k)"
    and hp: "heap w1 = heap test_world"
    and c1: "calls (trace w1) = calls (trace test_world) @ [(''attempt'', get_prop (JObj kvs) ''attempt_id'')]"
    and later: "\<forall>w2. heap w2 0 = JObj kvs \<longrightarrow>
              calls (trace (k w2)) =
                calls (trace w2) @ [(''course'', get_prop attempt_record ''course_id''),
                                    (''trainee'', get_prop attempt_record ''trainee_id''),
                                    (''user'', get_prop (JObj kvs) ''user_id'')] \<and>
              get_prop (heap (k w2) 0) ''attempt'' = attempt_record \<and>
              get_prop (heap (k w2) 0) ''course_id'' = get_prop attempt_record ''course_id'' \<and>
              get_prop (heap (k w2) 0) ''trainee_id'' = get_prop attempt_record ''trainee_id''"
    by blast
  from later hp h1 have "calls (trace (k w1)) =
                calls (trace w1) @ [(''course'', get_prop attempt_record ''course_id''),
                                    (''trainee'', get_prop attempt_record ''trainee_id''),
                                    (''user'', get_prop (JObj kvs) ''user_id'')] \<and>
              get_prop (heap (k w1) 0) ''attempt'' = attempt_record \<and>
              get_prop (heap (k w1) 0) ''course_id'' = get_prop attempt_record ''course_id'' \<and>
              get_prop (heap (k w1) 0) ''trainee_id'' = get_prop attempt_record ''trainee_id''"
    by simp
  then have "calls (trace (k w1)) =
        [(''attempt'', JStr ''e70a6ecf-f308-4306-831d-bb41c851061d''),
         (''course'', JStr ''c-1''),
         (''trainee'', JStr ''t-1''),
         (''user'', JStr ''471de972-520c-4f44-bd6d-34cc98dd5e6e'')] \<and>
      get_prop (heap (k w1) 0) ''attempt'' = attempt_record \<and>
      get_prop (heap (k w1) 0) ''course_id'' = JStr ''c-1'' \<and>
      get_prop (heap (k w1) 0) ''trainee_id'' = JStr ''t-1''"
    unfolding c1 ids rec by (simp add: test_world_simps)
  with h1 h2 h3 hk show ?thesis
    unfolding td [symmetric] by auto
qed

theorem no_attempt_no_course_no_trainee_witness:
  "heap test_world 0 = test_data \<and>
   get_prop test_data ''timestamp'' = JStr ''2018-01-16T14:09:51.655185082-07:00'' \<and>
   get_prop test_data ''course_id'' = JUndefined \<and>
   get_prop test_data ''trainee_id'' = JUndefined \<and>
   fst (getDetails default_config down_env ''attempt'' (get_prop test_data ''attempt_id'') test_world) =
     Rejected (JStr ''ETIMEDOUT'') \<and>
   (\<exists>w1 k d. hydrateAndIndex default_config down_env 0 test_world = Inr (w1, k) \<and>
      calls (trace (k w1)) =
        [(''attempt'', JStr ''e70a6ecf-f308-4306-831d-bb41c851061d''),
         (''course'', JUndefined),
         (''trainee'', JUndefined),
         (''user'', JStr ''471de972-520c-4f44-bd6d-34cc98dd5e6e'')] \<and>
      creates (trace (k w1)) = [d] \<and>
      es_body d = heap (k w1) 0)"
proof -
  define kvs where "kvs =
          [(''id'', JStr ''5c92de28-14f0-449e-821b-e61e871179c2''),
           (''attempt_id'', JStr ''e70a6ecf-f308-4306-831d-bb41c851061d''),
           (''progress'', JNum 0.63414633),
           (''score'', JNum 0.96158886),
           (''timestamp'', JStr ''2018-01-16T14:09:51.655185082-07:00''),
           (''type'', JStr ''PROGRESS''),
           (''user_id'', JStr ''471de972-520c-4f44-bd6d-34cc98dd5e6e'')]"
  have td: "test_data = JObj kvs"
    by (simp add: test_data_def kvs_def)
  have h1: "heap test_world 0 = JObj kvs"
    by (simp add: test_world_simps td)
  have h2: "get_prop (JObj kvs) ''timestamp'' = JStr ''2018-01-16T14:09:51.655185082-07:00''"
    and h3: "get_prop (JObj kvs) ''course_id'' = JUndefined"
    and h4: "get_prop (JObj kvs) ''trainee_id'' = JUndefined"
    and ids: "get_prop (JObj kvs) ''attempt_id'' = JStr ''e70a6ecf-f308-4306-831d-bb41c851061d''"
      "get_prop (JObj kvs) ''user_id'' = JStr ''471de972-520c-4f44-bd6d-34cc98dd5e6e''"
    by (simp_all add: kvs_def)
  have g: "fst (getDetails default_config down_env ''attempt'' (get_prop (JObj kvs) ''attempt_id'')
                  test_world) = Rejected (JStr ''ETIMEDOUT'')"
    unfolding ids
    by (simp add: getDetails_def Let_def split_beta down_env_def example_env_def
        getDetails_callback_def)
  then have h5: "fst (getDetails default_config down_env ''attempt'' (get_prop (JObj kvs) ''attempt_id'')
                  test_world) = Resolved JNull \<or>
       (\<exists>e. fst (getDetails default_config down_env ''attempt'' (get_prop (JObj kvs) ''attempt_id'')
                  test_world) = Rejected e)"
    by simp
  from no_attempt_no_course_no_trainee [OF h1 h2 h3 h4 h5]
  obtain w1 k where hk: "hydrateAndIndex default_config down_env 0 test_world = Inr (w1, k)"
    and hp: "heap w1 = heap test_world"
    and c1: "calls (trace w1) = calls (trace test_world) @ [(''attempt'', get_prop (JObj kvs) ''attempt_id'')]"
    and r1: "creates (trace w1) = creates (trace test_world)"
    and later: "\<forall>w2. heap w2 0 = JObj kvs \<longrightarrow>
              (\<exists>rs d. requests (trace (k w2)) = requests (trace w2) @ rs \<and>
                 length rs \<le> 1 \<and>
                 (\<forall>q \<in> set rs. json_params_id q = get_prop (JObj kvs) ''user_id'' \<and>
                    json_method q = map_of (brainspark_method default_config) ''user'') \<and>
                 calls (trace (k w2)) =
                   calls (trace w2) @ [(''course'', JUndefined), (''trainee'', JUndefined),
                                       (''user'', get_prop (JObj kvs) ''user_id'')] \<and>
                 creates (trace (k w2)) = creates (trace w2) @ [d] \<and>
                 es_body d = heap (k w2) 0 \<and>
                 (heap (k w2) 0 = JObj kvs \<or>
                  (\<exists>u. truthy u \<and> heap (k w2) 0 = set_prop (JObj kvs) ''user'' u)))"
    by blast
  have hw: "heap w1 0 = JObj kvs"
    using hp h1 by simp
  from later [rule_format, OF hw] obtain rs d where
    k1: "calls (trace (k w1)) =
       calls (trace w1) @ [(''course'', JUndefined), (''trainee'', JUndefined),
                           (''user'', get_prop (JObj kvs) ''user_id'')]"
    and k2: "creates (trace (k w1)) = creates (trace w1) @ [d]"
    and k3: "es_body d = heap (k w1) 0"
    by blast
  have e1: "calls (trace (k w1)) =
        [(''attempt'', JStr ''e70a6ecf-f308-4306-831d-bb41c851061d''),
         (''course'', JUndefined),
         (''trainee'', JUndefined),
         (''user'', JStr ''471de972-520c-4f44-bd6d-34cc98dd5e6e'')]"
    unfolding k1 c1 ids by (simp add: test_world_simps)
  have e2: "creates (trace (k w1)) = [d]"
    unfolding k2 r1 by (simp add: test_world_simps)
  have concl: "\<exists>w1 k d. hydrateAndIndex default_config down_env 0 test_world = Inr (w1, k) \<and>
      calls (trace (k w1)) =
        [(''attempt'', JStr ''e70a6ecf-f308-4306-831d-bb41c851061d''),
         (''course'', JUndefined),
         (''trainee'', JUndefined),
         (''user'', JStr ''471de972-520c-4f44-bd6d-34cc98dd5e6e'')] \<and>
      creates (trace (k w1)) = [d] \<and>
      es_body d = heap (k w1) 0"
    using hk e1 e2 k3 by blast
  show ?thesis
    unfolding td
    using h1 h2 h3 h4 g concl by (intro conjI)
qed

theorem transformMessage_gate_witness:
  "fst (isIndexableMessage default_config example_env 0 test_world) \<and>
   transformMessage default_config example_env 0 test_world =
     hydrateAndIndex default_config example_env 0 test_world \<and>
   \<not> fst (isIndexableMessage default_config example_env 0 world0) \<and>
   transformMessage default_config example_env 0 world0 = Inr (world0, (\<lambda>w'. w')) \<and>
   heap (snd (alloc (set_prop test_data ''bad_key'' (JStr ''Bad'')) world0)) 0 =
     set_prop test_data ''bad_key'' (JStr ''Bad'') \<and>
   transformMessage default_config example_env 0
       (snd (alloc (set_prop test_data ''bad_key'' (JStr ''Bad'')) world0)) =
     Inr (snd (alloc (set_prop test_data ''bad_key'' (JStr ''Bad'')) world0), (\<lambda>w'. w')) \<and>
   heap (snd (alloc (set_prop test_data ''type'' (JStr ''FOO'')) world0)) 0 =
     set_prop test_data ''type'' (JStr ''FOO'') \<and>
   transformMessage default_config example_env 0
       (snd (alloc (set_prop test_data ''type'' (JStr ''FOO'')) world0)) =
     Inr (snd (alloc (set_prop test_data ''type'' (JStr ''FOO'')) world0), (\<lambda>w'. w'))"
proof -
  define wb where "wb = snd (alloc (set_prop test_data ''bad_key'' (JStr ''Bad'')) world0)"
  define wf where "wf = snd (alloc (set_prop test_data ''type'' (JStr ''FOO'')) world0)"
  note h1 = test_data_indexable
  have h2: "\<not> fst (isIndexableMessage default_config example_env 0 world0)"
    by (simp add: isIndexableMessage_def world0_def)
  have h3: "heap wb 0 = set_prop test_data ''bad_key'' (JStr ''Bad'')"
    by (simp add: wb_def alloc_def world0_def)
  have h4: "heap wf 0 = set_prop test_data ''type'' (JStr ''FOO'')"
    by (simp add: wf_def alloc_def world0_def)
  show ?thesis
    unfolding wb_def [symmetric] wf_def [symmetric]
    using h1 h2 h3 h4
      transformMessage_gate [of default_config example_env 0 test_world]
      transformMessage_gate [of default_config example_env 0 world0]
      transformMessage_gate [of default_config example_env 0 wb]
      transformMessage_gate [of default_config example_env 0 wf]
    by simp
qed

theorem on_message_acknowledges_witness:
  "JSON_parse example_env test_payload = Some test_data \<and>
   (\<exists>w1 k es. on_message default_config example_env test_payload world0 = (None, w1, k) \<and>
      trace w1 = es @ [Finish] \<and> Finish \<notin> set es) \<and>
   JSON_parse example_env ''{'' = None \<and>
   on_message default_config example_env ''{'' world0 = (Some SyntaxError, world0, (\<lambda>w'. w'))"
proof -
  have h1: "JSON_parse example_env test_payload = Some test_data"
    by (simp add: example_env_def)
  have h2: "JSON_parse example_env ''{'' = None"
    by (simp add: example_env_def test_payload_def)
  have t: "trace world0 = []"
    by (simp add: world0_def)
  from on_message_acknowledges [of example_env test_payload default_config world0] h1
  have a: "\<exists>w1 k es. on_message default_config example_env test_payload world0 = (None, w1, k) \<and>
      trace w1 = es @ [Finish] \<and> Finish \<notin> set es"
    unfolding t by auto
  from on_message_acknowledges [of example_env "''{''" default_config world0] h2
  have b: "on_message default_config example_env ''{'' world0 = (Some SyntaxError, world0, (\<lambda>w'. w'))"
    by simp
  from h1 a h2 b show ?thesis by simp
qed

theorem decode_failure_not_acknowledged:
  "fst (on_message default_config example_env ''{'' world0) = Some SyntaxError \<and>
   Finish \<notin> set (trace (fst (snd (on_message default_config example_env ''{'' world0))))"
  by (simp add: on_message_def example_env_def test_payload_def world0_def)

end
